theory Spec2Isabelle
  imports Main "HOL-Library.Word" "HOL-Library.Product_Lexorder"
begin

section \<open>The CANopen object dictionary \<open>co_dict\<close>\<close>

text \<open>
  The file \<open>co_dictionary.cpp\<close> initialises the array \<open>CO_OBJ_T co_dict[]\<close>. Each record has
  the five fields its documentation lists: \<open>Key\<close>, \<open>Type\<close>, \<open>Data\<close>, \<open>DataPtr\<close> and
  \<open>ExtraFlags\<close>. The macros and types the initialisers use (\<open>CO_KEY\<close>, the \<open>CO_OBJ_...\<close>
  and \<open>CO_UNSIGNED...\<close> flags, \<open>CO_TSTRING\<close>, \<open>CO_COUNTER\<close>, \<open>INIT_FROM_DB_FLAG\<close>,
  \<open>CO_OBJ_DIR_ENDMARK\<close>, \<open>db::eIndex\<close>) are declared in headers that are not among the
  sources, so they are modelled by what the file's documentation says of them, not by a
  bit layout.
\<close>

subsection \<open>Key flags\<close>

text \<open>The size flag of a key: \<open>CO_UNSIGNED32/16/8\<close>, \<open>CO_SIGNED32/16/8\<close>, or \<open>CO_STRING\<close>.\<close>

datatype co_size =
    CO_UNSIGNED8 | CO_UNSIGNED16 | CO_UNSIGNED32
  | CO_SIGNED8 | CO_SIGNED16 | CO_SIGNED32
  | CO_STRING

text \<open>
  The access flags \<^verbatim>\<open>CO_OBJ_DNPRW\<close>: one position per flag, an underscore where the flag
  is absent. \<open>D\<close> is direct access (the value is stored in \<open>Data\<close>; it is pointed to by
  \<open>DataPtr\<close> otherwise), \<open>N\<close> adds the node id to \<open>Data\<close>, \<open>P\<close> makes the record mappable to
  a PDO, \<open>R\<close> and \<open>W\<close> give read and write access. A name cannot hold the runs of
  underscores here, so \<open>CO_OBJ_D_R\<close> stands for \<^verbatim>\<open>CO_OBJ_D__R_\<close>, \<open>CO_OBJ_DN_R\<close> for
  \<^verbatim>\<open>CO_OBJ_DN_R_\<close>, \<open>CO_OBJ_R\<close> for \<^verbatim>\<open>CO_OBJ____R_\<close>, \<open>CO_OBJ_W\<close> for
  \<^verbatim>\<open>CO_OBJ_____W\<close> and \<open>CO_OBJ_RW\<close> for \<^verbatim>\<open>CO_OBJ____RW\<close>.
\<close>

record co_flags =
  direct :: bool
  node_id :: bool
  pdo_map :: bool
  readable :: bool
  writable :: bool

definition CO_OBJ_D_R :: co_flags where
  "CO_OBJ_D_R = \<lparr>direct = True, node_id = False, pdo_map = False, readable = True, writable = False\<rparr>"

definition CO_OBJ_DN_R :: co_flags where
  "CO_OBJ_DN_R = \<lparr>direct = True, node_id = True, pdo_map = False, readable = True, writable = False\<rparr>"

definition CO_OBJ_R :: co_flags where
  "CO_OBJ_R = \<lparr>direct = False, node_id = False, pdo_map = False, readable = True, writable = False\<rparr>"

definition CO_OBJ_W :: co_flags where
  "CO_OBJ_W = \<lparr>direct = False, node_id = False, pdo_map = False, readable = False, writable = True\<rparr>"

definition CO_OBJ_RW :: co_flags where
  "CO_OBJ_RW = \<lparr>direct = False, node_id = False, pdo_map = False, readable = True, writable = True\<rparr>"

text \<open>
  \<open>CO_KEY(Index, Subindex, Flags)\<close>: a 16-bit index, an 8-bit sub-index and the flags, which
  every row of the table writes as \<open>size | access\<close>; the pair stands for that disjunction.
\<close>

record co_key =
  Index :: "16 word"
  Subindex :: "8 word"
  Size :: co_size
  Access :: co_flags

definition CO_KEY :: "16 word \<Rightarrow> 8 word \<Rightarrow> co_size \<times> co_flags \<Rightarrow> co_key" where
  "CO_KEY i s f = \<lparr>Index = i, Subindex = s, Size = fst f, Access = snd f\<rparr>"

subsection \<open>Records\<close>

text \<open>The special handlers a record's \<open>Type\<close> field can name; a record with \<open>0\<close> there has none.\<close>

datatype CO_OBJ_TYPE = CO_TSTRING | CO_COUNTER

text \<open>
  The variables of the file that \<open>DataPtr\<close> points to, and the values of \<open>DataPtr\<close>: the
  null pointer, or the address of a variable plus an element offset (\<open>manuf_data + 1\<close> is
  \<open>Ptr manuf_data 1\<close>, \<open>&k_commit_hash\<close> is \<open>Ptr k_commit_hash 0\<close>).
\<close>

datatype variable = manuf_data | k_commit_hash | k_commit_time

datatype VoidPtr = nullptr | Ptr variable nat

text \<open>
  The integer literal \<open>0\<close> as the initialiser of a pointer field. The table writes \<open>0\<close> in
  the rows that do not use \<open>DataPtr\<close> and \<open>nullptr\<close> in the database rows; both give the field
  the same null pointer.
\<close>

definition int_0 :: VoidPtr where
  "int_0 = nullptr"

text \<open>
  \<open>ExtraFlags\<close>: flags of the application; the table uses \<open>0\<close> (no flag) and
  \<open>INIT_FROM_DB_FLAG\<close> (the value has to be initialised with a database value).
\<close>

datatype extra_flag = INIT_FROM_DB

definition INIT_FROM_DB_FLAG :: "extra_flag set" where
  "INIT_FROM_DB_FLAG = {INIT_FROM_DB}"

text \<open>
  An enumerator \<open>eIndex::NAME\<close> of the database index type, by its name. The enumeration
  is declared in \<open>database/data_ids.h\<close>, so the number \<open>static_cast<uint32_t>\<close> gives an
  enumerator is not known: the table takes the cast as a parameter, and everything proved
  of the table holds for every numbering.
\<close>

datatype eIndex = eIndex string

text \<open>
  The macros \<open>CO_COBID_SDO_REQUEST()\<close> and \<open>CO_COBID_SDO_RESPONSE()\<close> of the stack's header:
  the default COB-IDs of the first SDO server, which CiA 301 fixes at \<open>0x600\<close> for requests
  and \<open>0x580\<close> for responses. No fact below depends on the two values.
\<close>

definition CO_COBID_SDO_REQUEST :: "32 word" where
  "CO_COBID_SDO_REQUEST = 0x600"

definition CO_COBID_SDO_RESPONSE :: "32 word" where
  "CO_COBID_SDO_RESPONSE = 0x580"

record CO_OBJ_T =
  Key :: co_key
  Type :: "CO_OBJ_TYPE option"
  Data :: "32 word"
  DataPtr :: VoidPtr
  ExtraFlags :: "extra_flag set"

text \<open>A brace-initialised record \<open>{Key, Type, Data, DataPtr, ExtraFlags}\<close>.\<close>

definition CO_OBJ ::
  "co_key \<Rightarrow> CO_OBJ_TYPE option \<Rightarrow> 32 word \<Rightarrow> VoidPtr \<Rightarrow> extra_flag set \<Rightarrow> CO_OBJ_T" where
  "CO_OBJ k t d p x = \<lparr>Key = k, Type = t, Data = d, DataPtr = p, ExtraFlags = x\<rparr>"

text \<open>A row of the array: a record, or the end mark \<open>CO_OBJ_DIR_ENDMARK\<close>.\<close>

datatype co_row = Obj CO_OBJ_T | CO_OBJ_DIR_ENDMARK

subsection \<open>The table\<close>

text \<open>
  The initialiser of \<open>co_dict\<close>, row by row in the order of the file. The file separates
  its rows into blocks by blank lines and comments; each block is a definition here, named
  by the index of its first row, and \<open>co_dict\<close> is the blocks in their order followed by
  the end mark.
\<close>

definition co_dict_1000 :: "CO_OBJ_T list" where
  "co_dict_1000 = [
    CO_OBJ (CO_KEY 0x1000 0 (CO_UNSIGNED32, CO_OBJ_D_R)) None 0x198 int_0 {},
    CO_OBJ (CO_KEY 0x1005 0 (CO_UNSIGNED32, CO_OBJ_D_R)) None 0x80 int_0 {}
  ]"

definition co_dict_1008 :: "CO_OBJ_T list" where
  "co_dict_1008 = [
    CO_OBJ (CO_KEY 0x1008 0 (CO_STRING, CO_OBJ_R)) (Some CO_TSTRING) 0 (Ptr manuf_data 0) {},
    CO_OBJ (CO_KEY 0x1009 0 (CO_STRING, CO_OBJ_R)) (Some CO_TSTRING) 0 (Ptr manuf_data 1) {},
    CO_OBJ (CO_KEY 0x100A 0 (CO_STRING, CO_OBJ_R)) (Some CO_TSTRING) 0 (Ptr manuf_data 2) {}
  ]"

definition co_dict_1017 :: "(eIndex \<Rightarrow> 32 word) \<Rightarrow> CO_OBJ_T list" where
  "co_dict_1017 static_cast_uint32_t = [
    CO_OBJ (CO_KEY 0x1017 0 (CO_UNSIGNED16, CO_OBJ_R)) None (static_cast_uint32_t (eIndex ''CO_PRODUCER_HB'')) nullptr INIT_FROM_DB_FLAG
  ]"

definition co_dict_1018 :: "CO_OBJ_T list" where
  "co_dict_1018 = [
    CO_OBJ (CO_KEY 0x1018 0 (CO_UNSIGNED8, CO_OBJ_D_R)) None 4 int_0 {},
    CO_OBJ (CO_KEY 0x1018 1 (CO_UNSIGNED32, CO_OBJ_D_R)) None 0 int_0 {},
    CO_OBJ (CO_KEY 0x1018 2 (CO_UNSIGNED32, CO_OBJ_D_R)) None 0 int_0 {},
    CO_OBJ (CO_KEY 0x1018 3 (CO_UNSIGNED32, CO_OBJ_D_R)) None 0 int_0 {},
    CO_OBJ (CO_KEY 0x1018 4 (CO_UNSIGNED32, CO_OBJ_D_R)) None 0 int_0 {}
  ]"

definition co_dict_1200 :: "CO_OBJ_T list" where
  "co_dict_1200 = [
    CO_OBJ (CO_KEY 0x1200 0 (CO_UNSIGNED8, CO_OBJ_D_R)) None 2 int_0 {},
    CO_OBJ (CO_KEY 0x1200 1 (CO_UNSIGNED32, CO_OBJ_DN_R)) None CO_COBID_SDO_REQUEST int_0 {},
    CO_OBJ (CO_KEY 0x1200 2 (CO_UNSIGNED32, CO_OBJ_DN_R)) None CO_COBID_SDO_RESPONSE int_0 {}
  ]"

definition co_dict_2100 :: "(eIndex \<Rightarrow> 32 word) \<Rightarrow> CO_OBJ_T list" where
  "co_dict_2100 static_cast_uint32_t = [
    CO_OBJ (CO_KEY 0x2100 0 (CO_UNSIGNED8, CO_OBJ_D_R)) None 2 int_0 {},
    CO_OBJ (CO_KEY 0x2100 1 (CO_UNSIGNED8, CO_OBJ_RW)) None (static_cast_uint32_t (eIndex ''GLOBAL_MANUAL_ENABLE'')) nullptr INIT_FROM_DB_FLAG,
    CO_OBJ (CO_KEY 0x2100 2 (CO_UNSIGNED8, CO_OBJ_RW)) None (static_cast_uint32_t (eIndex ''JOYSTICK_ENABLE'')) nullptr INIT_FROM_DB_FLAG
  ]"

definition co_dict_2101 :: "(eIndex \<Rightarrow> 32 word) \<Rightarrow> CO_OBJ_T list" where
  "co_dict_2101 static_cast_uint32_t = [
    CO_OBJ (CO_KEY 0x2101 0 (CO_UNSIGNED8, CO_OBJ_D_R)) None 1 int_0 {},
    CO_OBJ (CO_KEY 0x2101 1 (CO_UNSIGNED16, CO_OBJ_RW)) None (static_cast_uint32_t (eIndex ''LIGHTS_TURNS_PERIOD_MS'')) nullptr INIT_FROM_DB_FLAG
  ]"

definition co_dict_2102 :: "(eIndex \<Rightarrow> 32 word) \<Rightarrow> CO_OBJ_T list" where
  "co_dict_2102 static_cast_uint32_t = [
    CO_OBJ (CO_KEY 0x2102 0 (CO_UNSIGNED8, CO_OBJ_D_R)) None 2 int_0 {},
    CO_OBJ (CO_KEY 0x2102 1 (CO_UNSIGNED32, CO_OBJ_RW)) (Some CO_COUNTER) (static_cast_uint32_t (eIndex ''EEPROM_CMD_READ'')) nullptr INIT_FROM_DB_FLAG,
    CO_OBJ (CO_KEY 0x2102 2 (CO_UNSIGNED32, CO_OBJ_RW)) (Some CO_COUNTER) (static_cast_uint32_t (eIndex ''EEPROM_CMD_WRITE'')) nullptr INIT_FROM_DB_FLAG
  ]"

definition co_dict_2103 :: "CO_OBJ_T list" where
  "co_dict_2103 = [
    CO_OBJ (CO_KEY 0x2103 0 (CO_UNSIGNED8, CO_OBJ_D_R)) None 4 int_0 {},
    CO_OBJ (CO_KEY 0x2103 1 (CO_UNSIGNED32, CO_OBJ_R)) None 0 (Ptr k_commit_hash 0) {},
    CO_OBJ (CO_KEY 0x2103 2 (CO_UNSIGNED8, CO_OBJ_R)) None 0 (Ptr k_commit_time 0) {},
    CO_OBJ (CO_KEY 0x2103 3 (CO_UNSIGNED8, CO_OBJ_R)) None 0 (Ptr k_commit_time 1) {},
    CO_OBJ (CO_KEY 0x2103 4 (CO_UNSIGNED8, CO_OBJ_R)) None 0 (Ptr k_commit_time 2) {}
  ]"

definition co_dict_2107 :: "(eIndex \<Rightarrow> 32 word) \<Rightarrow> CO_OBJ_T list" where
  "co_dict_2107 static_cast_uint32_t = [
    CO_OBJ (CO_KEY 0x2107 0 (CO_UNSIGNED8, CO_OBJ_D_R)) None 8 int_0 {},
    CO_OBJ (CO_KEY 0x2107 1 (CO_UNSIGNED8, CO_OBJ_R)) None (static_cast_uint32_t (eIndex ''PSTED_OUT_RUN'')) nullptr INIT_FROM_DB_FLAG,
    CO_OBJ (CO_KEY 0x2107 2 (CO_UNSIGNED8, CO_OBJ_R)) None (static_cast_uint32_t (eIndex ''PSTED_OUT_EM_STOP'')) nullptr INIT_FROM_DB_FLAG,
    CO_OBJ (CO_KEY 0x2107 3 (CO_SIGNED16, CO_OBJ_R)) None (static_cast_uint32_t (eIndex ''PSTED_OUT_REF_MAIN_VALUE'')) nullptr INIT_FROM_DB_FLAG,
    CO_OBJ (CO_KEY 0x2107 4 (CO_UNSIGNED8, CO_OBJ_R)) None (static_cast_uint32_t (eIndex ''PSTED_OUT_REF_FLUX_CURRENT'')) nullptr INIT_FROM_DB_FLAG,
    CO_OBJ (CO_KEY 0x2107 5 (CO_UNSIGNED16, CO_OBJ_R)) None (static_cast_uint32_t (eIndex ''PSTED_OUT_BMS_VOLTAGE'')) nullptr INIT_FROM_DB_FLAG,
    CO_OBJ (CO_KEY 0x2107 6 (CO_UNSIGNED8, CO_OBJ_R)) None (static_cast_uint32_t (eIndex ''SYSTEM_PSTED_ONLINE'')) nullptr INIT_FROM_DB_FLAG,
    CO_OBJ (CO_KEY 0x2107 7 (CO_SIGNED16, CO_OBJ_R)) None (static_cast_uint32_t (eIndex ''PSTED_OUT_REF_ANGLE'')) nullptr INIT_FROM_DB_FLAG,
    CO_OBJ (CO_KEY 0x2107 8 (CO_UNSIGNED16, CO_OBJ_R)) None (static_cast_uint32_t (eIndex ''PSTED_OUT_MOTOR_VELOCITY_LIMIT'')) nullptr INIT_FROM_DB_FLAG
  ]"

definition co_dict_2108 :: "(eIndex \<Rightarrow> 32 word) \<Rightarrow> CO_OBJ_T list" where
  "co_dict_2108 static_cast_uint32_t = [
    CO_OBJ (CO_KEY 0x2108 0 (CO_UNSIGNED8, CO_OBJ_D_R)) None 16 int_0 {},
    CO_OBJ (CO_KEY 0x2108 1 (CO_UNSIGNED32, CO_OBJ_R)) None (static_cast_uint32_t (eIndex ''PSTED_STATUS'')) nullptr INIT_FROM_DB_FLAG,
    CO_OBJ (CO_KEY 0x2108 2 (CO_SIGNED8, CO_OBJ_R)) None (static_cast_uint32_t (eIndex ''PSTED_TORQUE'')) nullptr INIT_FROM_DB_FLAG,
    CO_OBJ (CO_KEY 0x2108 3 (CO_SIGNED16, CO_OBJ_R)) None (static_cast_uint32_t (eIndex ''PSTED_MOTOR_SPEED'')) nullptr INIT_FROM_DB_FLAG,
    CO_OBJ (CO_KEY 0x2108 4 (CO_SIGNED8, CO_OBJ_R)) None (static_cast_uint32_t (eIndex ''PSTED_CURRENT'')) nullptr INIT_FROM_DB_FLAG,
    CO_OBJ (CO_KEY 0x2108 5 (CO_SIGNED8, CO_OBJ_R)) None (static_cast_uint32_t (eIndex ''PSTED_POWER'')) nullptr INIT_FROM_DB_FLAG,
    CO_OBJ (CO_KEY 0x2108 6 (CO_UNSIGNED8, CO_OBJ_R)) None (static_cast_uint32_t (eIndex ''PSTED_VOLTAGE'')) nullptr INIT_FROM_DB_FLAG,
    CO_OBJ (CO_KEY 0x2108 7 (CO_UNSIGNED8, CO_OBJ_R)) None (static_cast_uint32_t (eIndex ''PSTED_PHASE_VOLTAGE'')) nullptr INIT_FROM_DB_FLAG,
    CO_OBJ (CO_KEY 0x2108 8 (CO_UNSIGNED8, CO_OBJ_R)) None (static_cast_uint32_t (eIndex ''PSTED_MOTOR_TEMP'')) nullptr INIT_FROM_DB_FLAG,
    CO_OBJ (CO_KEY 0x2108 9 (CO_UNSIGNED8, CO_OBJ_R)) None (static_cast_uint32_t (eIndex ''PSTED_FLUXCOIL_TEMP'')) nullptr INIT_FROM_DB_FLAG,
    CO_OBJ (CO_KEY 0x2108 10 (CO_UNSIGNED8, CO_OBJ_R)) None (static_cast_uint32_t (eIndex ''PSTED_INV_RADIATOR_TEMP'')) nullptr INIT_FROM_DB_FLAG,
    CO_OBJ (CO_KEY 0x2108 11 (CO_UNSIGNED8, CO_OBJ_R)) None (static_cast_uint32_t (eIndex ''PSTED_INV_INTERNAL_TEMP'')) nullptr INIT_FROM_DB_FLAG,
    CO_OBJ (CO_KEY 0x2108 12 (CO_UNSIGNED32, CO_OBJ_R)) None (static_cast_uint32_t (eIndex ''PSTED_ISOLATION_STATUS'')) nullptr INIT_FROM_DB_FLAG,
    CO_OBJ (CO_KEY 0x2108 13 (CO_UNSIGNED32, CO_OBJ_R)) None (static_cast_uint32_t (eIndex ''PSTED_ERRORS_1'')) nullptr INIT_FROM_DB_FLAG,
    CO_OBJ (CO_KEY 0x2108 14 (CO_UNSIGNED16, CO_OBJ_R)) None (static_cast_uint32_t (eIndex ''PSTED_ERRORS_2'')) nullptr INIT_FROM_DB_FLAG,
    CO_OBJ (CO_KEY 0x2108 15 (CO_UNSIGNED16, CO_OBJ_R)) None (static_cast_uint32_t (eIndex ''PSTED_WARNINGS'')) nullptr INIT_FROM_DB_FLAG,
    CO_OBJ (CO_KEY 0x2108 16 (CO_SIGNED16, CO_OBJ_RW)) None (static_cast_uint32_t (eIndex ''PSTED_MANUAL_REFTORQUE'')) nullptr INIT_FROM_DB_FLAG
  ]"

definition co_dict_2109 :: "(eIndex \<Rightarrow> 32 word) \<Rightarrow> CO_OBJ_T list" where
  "co_dict_2109 static_cast_uint32_t = [
    CO_OBJ (CO_KEY 0x2109 0 (CO_UNSIGNED8, CO_OBJ_D_R)) None 9 int_0 {},
    CO_OBJ (CO_KEY 0x2109 1 (CO_UNSIGNED8, CO_OBJ_RW)) None (static_cast_uint32_t (eIndex ''PSTED_TORQUE_INVERT'')) nullptr INIT_FROM_DB_FLAG,
    CO_OBJ (CO_KEY 0x2109 2 (CO_UNSIGNED16, CO_OBJ_RW)) None (static_cast_uint32_t (eIndex ''PSTED_RAMP_MAX_TORQUE'')) nullptr INIT_FROM_DB_FLAG,
    CO_OBJ (CO_KEY 0x2109 3 (CO_UNSIGNED16, CO_OBJ_RW)) None (static_cast_uint32_t (eIndex ''PSTED_RAMP_TIME_MS'')) nullptr INIT_FROM_DB_FLAG,
    CO_OBJ (CO_KEY 0x2109 4 (CO_UNSIGNED16, CO_OBJ_RW)) None (static_cast_uint32_t (eIndex ''PSTED_ONLINE_TIMEOUT_MS'')) nullptr INIT_FROM_DB_FLAG,
    CO_OBJ (CO_KEY 0x2109 5 (CO_UNSIGNED8, CO_OBJ_RW)) None (static_cast_uint32_t (eIndex ''PSTED_CONTROL_MODE'')) nullptr INIT_FROM_DB_FLAG,
    CO_OBJ (CO_KEY 0x2109 6 (CO_UNSIGNED16, CO_OBJ_RW)) None (static_cast_uint32_t (eIndex ''PSTED_MAX_STATOR_CURRENT'')) nullptr INIT_FROM_DB_FLAG,
    CO_OBJ (CO_KEY 0x2109 7 (CO_UNSIGNED16, CO_OBJ_RW)) None (static_cast_uint32_t (eIndex ''PSTED_IF_TO_IQ_MULT'')) nullptr INIT_FROM_DB_FLAG,
    CO_OBJ (CO_KEY 0x2109 8 (CO_SIGNED16, CO_OBJ_RW)) None (static_cast_uint32_t (eIndex ''PSTED_DEFAULT_ANGLE'')) nullptr INIT_FROM_DB_FLAG,
    CO_OBJ (CO_KEY 0x2109 9 (CO_UNSIGNED16, CO_OBJ_RW)) None (static_cast_uint32_t (eIndex ''PSTED_DEFAULT_MOTOR_VELOCITY_LIMIT'')) nullptr INIT_FROM_DB_FLAG
  ]"

definition co_dict_2110 :: "(eIndex \<Rightarrow> 32 word) \<Rightarrow> CO_OBJ_T list" where
  "co_dict_2110 static_cast_uint32_t = [
    CO_OBJ (CO_KEY 0x2110 0 (CO_UNSIGNED8, CO_OBJ_D_R)) None 4 int_0 {},
    CO_OBJ (CO_KEY 0x2110 1 (CO_SIGNED16, CO_OBJ_RW)) None (static_cast_uint32_t (eIndex ''STEERING_MANUAL_CMD_FRONT'')) nullptr INIT_FROM_DB_FLAG,
    CO_OBJ (CO_KEY 0x2110 2 (CO_SIGNED16, CO_OBJ_RW)) None (static_cast_uint32_t (eIndex ''STEERING_MANUAL_CMD_REAR'')) nullptr INIT_FROM_DB_FLAG,
    CO_OBJ (CO_KEY 0x2110 3 (CO_UNSIGNED16, CO_OBJ_RW)) None (static_cast_uint32_t (eIndex ''STEERING_PARAM_MSG_TIMEOUT'')) nullptr INIT_FROM_DB_FLAG,
    CO_OBJ (CO_KEY 0x2110 4 (CO_UNSIGNED8, CO_OBJ_RW)) None (static_cast_uint32_t (eIndex ''STEERING_PARAM_REAR_TASK_ACTIVE'')) nullptr INIT_FROM_DB_FLAG
  ]"

definition co_dict_2111 :: "(eIndex \<Rightarrow> 32 word) \<Rightarrow> CO_OBJ_T list" where
  "co_dict_2111 static_cast_uint32_t = [
    CO_OBJ (CO_KEY 0x2111 0 (CO_UNSIGNED8, CO_OBJ_D_R)) None 14 int_0 {},
    CO_OBJ (CO_KEY 0x2111 1 (CO_UNSIGNED32, CO_OBJ_R)) None (static_cast_uint32_t (eIndex ''STEERING_AUTOPILOT_CMD_FRONT'')) nullptr INIT_FROM_DB_FLAG,
    CO_OBJ (CO_KEY 0x2111 2 (CO_UNSIGNED32, CO_OBJ_R)) None (static_cast_uint32_t (eIndex ''STEERING_AUTOPILOT_CUR_POS_FRONT'')) nullptr INIT_FROM_DB_FLAG,
    CO_OBJ (CO_KEY 0x2111 3 (CO_SIGNED16, CO_OBJ_R)) None (static_cast_uint32_t (eIndex ''STEERING_SERVO_CMD_FRONT'')) nullptr INIT_FROM_DB_FLAG,
    CO_OBJ (CO_KEY 0x2111 4 (CO_SIGNED16, CO_OBJ_R)) None (static_cast_uint32_t (eIndex ''STEERING_SERVO_CUR_POS_FRONT'')) nullptr INIT_FROM_DB_FLAG,
    CO_OBJ (CO_KEY 0x2111 5 (CO_UNSIGNED8, CO_OBJ_R)) None (static_cast_uint32_t (eIndex ''STEERING_SERVO_RUN_FRONT'')) nullptr INIT_FROM_DB_FLAG,
    CO_OBJ (CO_KEY 0x2111 6 (CO_UNSIGNED8, CO_OBJ_R)) None (static_cast_uint32_t (eIndex ''STEERING_SERVO_ONLINE_FRONT'')) nullptr INIT_FROM_DB_FLAG,
    CO_OBJ (CO_KEY 0x2111 7 (CO_SIGNED16, CO_OBJ_RW)) None (static_cast_uint32_t (eIndex ''STEERING_PARAM_ZERO_FRONT'')) nullptr INIT_FROM_DB_FLAG,
    CO_OBJ (CO_KEY 0x2111 8 (CO_SIGNED16, CO_OBJ_RW)) None (static_cast_uint32_t (eIndex ''STEERING_PARAM_MAX_FRONT'')) nullptr INIT_FROM_DB_FLAG,
    CO_OBJ (CO_KEY 0x2111 9 (CO_SIGNED16, CO_OBJ_RW)) None (static_cast_uint32_t (eIndex ''STEERING_PARAM_MIN_FRONT'')) nullptr INIT_FROM_DB_FLAG,
    CO_OBJ (CO_KEY 0x2111 10 (CO_UNSIGNED8, CO_OBJ_RW)) None (static_cast_uint32_t (eIndex ''STEERING_PARAM_INVERT_FRONT'')) nullptr INIT_FROM_DB_FLAG,
    CO_OBJ (CO_KEY 0x2111 11 (CO_UNSIGNED8, CO_OBJ_R)) None (static_cast_uint32_t (eIndex ''STEERING_SERVO_STATUS_FRONT'')) nullptr INIT_FROM_DB_FLAG,
    CO_OBJ (CO_KEY 0x2111 12 (CO_SIGNED16, CO_OBJ_R)) None (static_cast_uint32_t (eIndex ''STEERING_SERVO_CURRENT_FRONT'')) nullptr INIT_FROM_DB_FLAG,
    CO_OBJ (CO_KEY 0x2111 13 (CO_UNSIGNED8, CO_OBJ_R)) None (static_cast_uint32_t (eIndex ''STEERING_SERVO_TEMP_FRONT'')) nullptr INIT_FROM_DB_FLAG,
    CO_OBJ (CO_KEY 0x2111 14 (CO_UNSIGNED8, CO_OBJ_R)) None (static_cast_uint32_t (eIndex ''STEERING_SERVO_MOTORTEMP_FRONT'')) nullptr INIT_FROM_DB_FLAG
  ]"

definition co_dict_2112 :: "(eIndex \<Rightarrow> 32 word) \<Rightarrow> CO_OBJ_T list" where
  "co_dict_2112 static_cast_uint32_t = [
    CO_OBJ (CO_KEY 0x2112 0 (CO_UNSIGNED8, CO_OBJ_D_R)) None 14 int_0 {},
    CO_OBJ (CO_KEY 0x2112 1 (CO_UNSIGNED32, CO_OBJ_R)) None (static_cast_uint32_t (eIndex ''STEERING_AUTOPILOT_CMD_REAR'')) nullptr INIT_FROM_DB_FLAG,
    CO_OBJ (CO_KEY 0x2112 2 (CO_UNSIGNED32, CO_OBJ_R)) None (static_cast_uint32_t (eIndex ''STEERING_AUTOPILOT_CUR_POS_REAR'')) nullptr INIT_FROM_DB_FLAG,
    CO_OBJ (CO_KEY 0x2112 3 (CO_SIGNED16, CO_OBJ_R)) None (static_cast_uint32_t (eIndex ''STEERING_SERVO_CMD_REAR'')) nullptr INIT_FROM_DB_FLAG,
    CO_OBJ (CO_KEY 0x2112 4 (CO_SIGNED16, CO_OBJ_R)) None (static_cast_uint32_t (eIndex ''STEERING_SERVO_CUR_POS_REAR'')) nullptr INIT_FROM_DB_FLAG,
    CO_OBJ (CO_KEY 0x2112 5 (CO_UNSIGNED8, CO_OBJ_R)) None (static_cast_uint32_t (eIndex ''STEERING_SERVO_RUN_REAR'')) nullptr INIT_FROM_DB_FLAG,
    CO_OBJ (CO_KEY 0x2112 6 (CO_UNSIGNED8, CO_OBJ_R)) None (static_cast_uint32_t (eIndex ''STEERING_SERVO_ONLINE_REAR'')) nullptr INIT_FROM_DB_FLAG,
    CO_OBJ (CO_KEY 0x2112 7 (CO_SIGNED16, CO_OBJ_RW)) None (static_cast_uint32_t (eIndex ''STEERING_PARAM_ZERO_REAR'')) nullptr INIT_FROM_DB_FLAG,
    CO_OBJ (CO_KEY 0x2112 8 (CO_SIGNED16, CO_OBJ_RW)) None (static_cast_uint32_t (eIndex ''STEERING_PARAM_MAX_REAR'')) nullptr INIT_FROM_DB_FLAG,
    CO_OBJ (CO_KEY 0x2112 9 (CO_SIGNED16, CO_OBJ_RW)) None (static_cast_uint32_t (eIndex ''STEERING_PARAM_MIN_REAR'')) nullptr INIT_FROM_DB_FLAG,
    CO_OBJ (CO_KEY 0x2112 10 (CO_UNSIGNED8, CO_OBJ_RW)) None (static_cast_uint32_t (eIndex ''STEERING_PARAM_INVERT_REAR'')) nullptr INIT_FROM_DB_FLAG,
    CO_OBJ (CO_KEY 0x2112 11 (CO_UNSIGNED8, CO_OBJ_R)) None (static_cast_uint32_t (eIndex ''STEERING_SERVO_STATUS_REAR'')) nullptr INIT_FROM_DB_FLAG,
    CO_OBJ (CO_KEY 0x2112 12 (CO_SIGNED16, CO_OBJ_R)) None (static_cast_uint32_t (eIndex ''STEERING_SERVO_CURRENT_REAR'')) nullptr INIT_FROM_DB_FLAG,
    CO_OBJ (CO_KEY 0x2112 13 (CO_UNSIGNED8, CO_OBJ_R)) None (static_cast_uint32_t (eIndex ''STEERING_SERVO_TEMP_REAR'')) nullptr INIT_FROM_DB_FLAG,
    CO_OBJ (CO_KEY 0x2112 14 (CO_UNSIGNED8, CO_OBJ_R)) None (static_cast_uint32_t (eIndex ''STEERING_SERVO_MOTORTEMP_REAR'')) nullptr INIT_FROM_DB_FLAG
  ]"

definition co_dict_2113 :: "(eIndex \<Rightarrow> 32 word) \<Rightarrow> CO_OBJ_T list" where
  "co_dict_2113 static_cast_uint32_t = [
    CO_OBJ (CO_KEY 0x2113 0 (CO_UNSIGNED8, CO_OBJ_D_R)) None 5 int_0 {},
    CO_OBJ (CO_KEY 0x2113 1 (CO_UNSIGNED8, CO_OBJ_R)) None (static_cast_uint32_t (eIndex ''IOLIB_ERROR_CODE'')) nullptr INIT_FROM_DB_FLAG,
    CO_OBJ (CO_KEY 0x2113 2 (CO_UNSIGNED8, CO_OBJ_R)) None (static_cast_uint32_t (eIndex ''IOLIB_ERROR_DEVICE'')) nullptr INIT_FROM_DB_FLAG,
    CO_OBJ (CO_KEY 0x2113 3 (CO_UNSIGNED16, CO_OBJ_R)) None (static_cast_uint32_t (eIndex ''IOLIB_CFG_FLASH_ERRORS'')) nullptr INIT_FROM_DB_FLAG,
    CO_OBJ (CO_KEY 0x2113 4 (CO_UNSIGNED16, CO_OBJ_R)) None (static_cast_uint32_t (eIndex ''IOLIB_FLASH_ERRORS'')) nullptr INIT_FROM_DB_FLAG,
    CO_OBJ (CO_KEY 0x2113 5 (CO_UNSIGNED16, CO_OBJ_R)) None (static_cast_uint32_t (eIndex ''IOLIB_RAM_ERRORS'')) nullptr INIT_FROM_DB_FLAG
  ]"

definition co_dict_2114 :: "(eIndex \<Rightarrow> 32 word) \<Rightarrow> CO_OBJ_T list" where
  "co_dict_2114 static_cast_uint32_t = [
    CO_OBJ (CO_KEY 0x2114 0 (CO_UNSIGNED8, CO_OBJ_D_R)) None 3 int_0 {},
    CO_OBJ (CO_KEY 0x2114 1 (CO_UNSIGNED8, CO_OBJ_R)) None (static_cast_uint32_t (eIndex ''MAINFSM_CURRENT_STATE'')) nullptr INIT_FROM_DB_FLAG,
    CO_OBJ (CO_KEY 0x2114 2 (CO_UNSIGNED16, CO_OBJ_RW)) None (static_cast_uint32_t (eIndex ''MAINFSM_STARTUP_TIMEOUT_MS'')) nullptr INIT_FROM_DB_FLAG,
    CO_OBJ (CO_KEY 0x2114 3 (CO_UNSIGNED16, CO_OBJ_RW)) None (static_cast_uint32_t (eIndex ''VEHICLE_STOP_TIMEOUT_MS'')) nullptr INIT_FROM_DB_FLAG
  ]"

definition co_dict_2115 :: "(eIndex \<Rightarrow> 32 word) \<Rightarrow> CO_OBJ_T list" where
  "co_dict_2115 static_cast_uint32_t = [
    CO_OBJ (CO_KEY 0x2115 0 (CO_UNSIGNED8, CO_OBJ_D_R)) None 5 int_0 {},
    CO_OBJ (CO_KEY 0x2115 1 (CO_UNSIGNED16, CO_OBJ_R)) None (static_cast_uint32_t (eIndex ''CANOPEN_LISTER_FAULT_VALUE'')) nullptr INIT_FROM_DB_FLAG,
    CO_OBJ (CO_KEY 0x2115 2 (CO_UNSIGNED8, CO_OBJ_R)) None (static_cast_uint32_t (eIndex ''CANOPEN_LISTER_FAULT_NUM'')) nullptr INIT_FROM_DB_FLAG,
    CO_OBJ (CO_KEY 0x2115 3 (CO_UNSIGNED16, CO_OBJ_R)) None (static_cast_uint32_t (eIndex ''CANOPEN_LISTER_WARNING_VALUE'')) nullptr INIT_FROM_DB_FLAG,
    CO_OBJ (CO_KEY 0x2115 4 (CO_UNSIGNED8, CO_OBJ_R)) None (static_cast_uint32_t (eIndex ''CANOPEN_LISTER_WARNING_NUM'')) nullptr INIT_FROM_DB_FLAG,
    CO_OBJ (CO_KEY 0x2115 5 (CO_UNSIGNED16, CO_OBJ_RW)) None (static_cast_uint32_t (eIndex ''CANOPEN_LISTER_TIMEOUT_MS'')) nullptr INIT_FROM_DB_FLAG
  ]"

definition co_dict_2116 :: "(eIndex \<Rightarrow> 32 word) \<Rightarrow> CO_OBJ_T list" where
  "co_dict_2116 static_cast_uint32_t = [
    CO_OBJ (CO_KEY 0x2116 0 (CO_UNSIGNED8, CO_OBJ_D_R)) None 23 int_0 {},
    CO_OBJ (CO_KEY 0x2116 1 (CO_UNSIGNED16, CO_OBJ_RW)) None (static_cast_uint32_t (eIndex ''BRAKE_ACC_PRESSURE_MAX'')) nullptr INIT_FROM_DB_FLAG,
    CO_OBJ (CO_KEY 0x2116 2 (CO_UNSIGNED16, CO_OBJ_RW)) None (static_cast_uint32_t (eIndex ''BRAKE_ACC_PRESSURE_MIN'')) nullptr INIT_FROM_DB_FLAG,
    CO_OBJ (CO_KEY 0x2116 3 (CO_UNSIGNED16, CO_OBJ_RW)) None (static_cast_uint32_t (eIndex ''BRAKE_ACC_PRESSURE_CRITICAL'')) nullptr INIT_FROM_DB_FLAG,
    CO_OBJ (CO_KEY 0x2116 4 (CO_UNSIGNED16, CO_OBJ_RW)) None (static_cast_uint32_t (eIndex ''BRAKE_ACC_CRITICAL_TIMEOUT_MS'')) nullptr INIT_FROM_DB_FLAG,
    CO_OBJ (CO_KEY 0x2116 5 (CO_UNSIGNED16, CO_OBJ_RW)) None (static_cast_uint32_t (eIndex ''BRAKE_SLA_VOLT_MAX'')) nullptr INIT_FROM_DB_FLAG,
    CO_OBJ (CO_KEY 0x2116 6 (CO_UNSIGNED16, CO_OBJ_RW)) None (static_cast_uint32_t (eIndex ''BRAKE_SLA_VOLT_MIN'')) nullptr INIT_FROM_DB_FLAG,
    CO_OBJ (CO_KEY 0x2116 7 (CO_UNSIGNED16, CO_OBJ_RW)) None (static_cast_uint32_t (eIndex ''BRAKE_SLR_VOLT_MAX'')) nullptr INIT_FROM_DB_FLAG,
    CO_OBJ (CO_KEY 0x2116 8 (CO_UNSIGNED16, CO_OBJ_RW)) None (static_cast_uint32_t (eIndex ''BRAKE_SLR_VOLT_MIN'')) nullptr INIT_FROM_DB_FLAG,
    CO_OBJ (CO_KEY 0x2116 9 (CO_UNSIGNED16, CO_OBJ_RW)) None (static_cast_uint32_t (eIndex ''BRAKE_PID_PROP_NUM'')) nullptr INIT_FROM_DB_FLAG,
    CO_OBJ (CO_KEY 0x2116 10 (CO_UNSIGNED16, CO_OBJ_RW)) None (static_cast_uint32_t (eIndex ''BRAKE_PID_PROP_DENOM'')) nullptr INIT_FROM_DB_FLAG,
    CO_OBJ (CO_KEY 0x2116 11 (CO_UNSIGNED16, CO_OBJ_RW)) None (static_cast_uint32_t (eIndex ''BRAKE_PID_INT_NUM'')) nullptr INIT_FROM_DB_FLAG,
    CO_OBJ (CO_KEY 0x2116 12 (CO_UNSIGNED16, CO_OBJ_RW)) None (static_cast_uint32_t (eIndex ''BRAKE_PID_INT_DENOM'')) nullptr INIT_FROM_DB_FLAG,
    CO_OBJ (CO_KEY 0x2116 13 (CO_UNSIGNED8, CO_OBJ_RW)) None (static_cast_uint32_t (eIndex ''BRAKE_DIRECT_UNITS_CONTROL'')) nullptr INIT_FROM_DB_FLAG,
    CO_OBJ (CO_KEY 0x2116 14 (CO_UNSIGNED8, CO_OBJ_RW)) None (static_cast_uint32_t (eIndex ''BRAKE_TASK_ACTIVE'')) nullptr INIT_FROM_DB_FLAG,
    CO_OBJ (CO_KEY 0x2116 15 (CO_UNSIGNED8, CO_OBJ_RW)) None (static_cast_uint32_t (eIndex ''BRAKE_ADC_FILTER_FACTOR'')) nullptr INIT_FROM_DB_FLAG,
    CO_OBJ (CO_KEY 0x2116 16 (CO_UNSIGNED8, CO_OBJ_RW)) None (static_cast_uint32_t (eIndex ''BRAKE_MIN_VALID_CMD_VALUE'')) nullptr INIT_FROM_DB_FLAG,
    CO_OBJ (CO_KEY 0x2116 17 (CO_UNSIGNED16, CO_OBJ_RW)) None (static_cast_uint32_t (eIndex ''BRAKE_MAX_ALLOW_PRESSURE_AT_ZERO'')) nullptr INIT_FROM_DB_FLAG,
    CO_OBJ (CO_KEY 0x2116 18 (CO_UNSIGNED8, CO_OBJ_RW)) None (static_cast_uint32_t (eIndex ''BRAKE_EMERGENCY_STOP_POWER'')) nullptr INIT_FROM_DB_FLAG,
    CO_OBJ (CO_KEY 0x2116 19 (CO_UNSIGNED8, CO_OBJ_RW)) None (static_cast_uint32_t (eIndex ''BRAKE_FRONT_CONTOUR_ENABLE'')) nullptr INIT_FROM_DB_FLAG,
    CO_OBJ (CO_KEY 0x2116 20 (CO_UNSIGNED8, CO_OBJ_RW)) None (static_cast_uint32_t (eIndex ''BRAKE_REAR_CONTOUR_ENABLE'')) nullptr INIT_FROM_DB_FLAG,
    CO_OBJ (CO_KEY 0x2116 21 (CO_UNSIGNED16, CO_OBJ_RW)) None (static_cast_uint32_t (eIndex ''BRAKE_PUMP_LOWER_THRES'')) nullptr INIT_FROM_DB_FLAG,
    CO_OBJ (CO_KEY 0x2116 22 (CO_UNSIGNED16, CO_OBJ_RW)) None (static_cast_uint32_t (eIndex ''BRAKE_PUMP_UPPER_THRES'')) nullptr INIT_FROM_DB_FLAG,
    CO_OBJ (CO_KEY 0x2116 23 (CO_UNSIGNED8, CO_OBJ_RW)) None (static_cast_uint32_t (eIndex ''BRAKE_VELOCITY_CONTROL_ENABLE'')) nullptr INIT_FROM_DB_FLAG
  ]"

definition co_dict_2117 :: "(eIndex \<Rightarrow> 32 word) \<Rightarrow> CO_OBJ_T list" where
  "co_dict_2117 static_cast_uint32_t = [
    CO_OBJ (CO_KEY 0x2117 0 (CO_UNSIGNED8, CO_OBJ_D_R)) None 15 int_0 {},
    CO_OBJ (CO_KEY 0x2117 1 (CO_UNSIGNED8, CO_OBJ_RW)) None (static_cast_uint32_t (eIndex ''BRAKE_CMD_CANOPEN'')) nullptr INIT_FROM_DB_FLAG,
    CO_OBJ (CO_KEY 0x2117 2 (CO_UNSIGNED16, CO_OBJ_R)) None (static_cast_uint32_t (eIndex ''BRAKE_CONT_REAR_CUR_PRESSURE_CANOPEN'')) nullptr INIT_FROM_DB_FLAG,
    CO_OBJ (CO_KEY 0x2117 3 (CO_UNSIGNED16, CO_OBJ_R)) None (static_cast_uint32_t (eIndex ''BRAKE_CONT_FRONT_CUR_PRESSURE_CANOPEN'')) nullptr INIT_FROM_DB_FLAG,
    CO_OBJ (CO_KEY 0x2117 4 (CO_UNSIGNED8, CO_OBJ_R)) None (static_cast_uint32_t (eIndex ''BRAKE_PUMP_ENABLED'')) nullptr INIT_FROM_DB_FLAG,
    CO_OBJ (CO_KEY 0x2117 5 (CO_UNSIGNED16, CO_OBJ_R)) None (static_cast_uint32_t (eIndex ''BRAKE_ACC_CUR_PRESSURE'')) nullptr INIT_FROM_DB_FLAG,
    CO_OBJ (CO_KEY 0x2117 6 (CO_UNSIGNED8, CO_OBJ_RW)) None (static_cast_uint32_t (eIndex ''BRAKE_MANUAL_PUMP_EN'')) nullptr INIT_FROM_DB_FLAG,
    CO_OBJ (CO_KEY 0x2117 9 (CO_UNSIGNED16, CO_OBJ_RW)) None (static_cast_uint32_t (eIndex ''BRAKE_SOL_ACCUM_REAR_MANUAL_CTRL'')) nullptr INIT_FROM_DB_FLAG,
    CO_OBJ (CO_KEY 0x2117 10 (CO_UNSIGNED16, CO_OBJ_RW)) None (static_cast_uint32_t (eIndex ''BRAKE_SOL_REL_REAR_MANUAL_CTRL'')) nullptr INIT_FROM_DB_FLAG,
    CO_OBJ (CO_KEY 0x2117 11 (CO_UNSIGNED16, CO_OBJ_RW)) None (static_cast_uint32_t (eIndex ''BRAKE_SOL_ACCUM_FRONT_MANUAL_CTRL'')) nullptr INIT_FROM_DB_FLAG,
    CO_OBJ (CO_KEY 0x2117 12 (CO_UNSIGNED16, CO_OBJ_RW)) None (static_cast_uint32_t (eIndex ''BRAKE_SOL_REL_FRONT_MANUAL_CTRL'')) nullptr INIT_FROM_DB_FLAG,
    CO_OBJ (CO_KEY 0x2117 13 (CO_UNSIGNED8, CO_OBJ_R)) None (static_cast_uint32_t (eIndex ''BRAKE_ACC_ERRORS'')) nullptr INIT_FROM_DB_FLAG,
    CO_OBJ (CO_KEY 0x2117 14 (CO_UNSIGNED8, CO_OBJ_R)) None (static_cast_uint32_t (eIndex ''BRAKE_CONT_FRONT_ERRORS'')) nullptr INIT_FROM_DB_FLAG,
    CO_OBJ (CO_KEY 0x2117 15 (CO_UNSIGNED8, CO_OBJ_R)) None (static_cast_uint32_t (eIndex ''BRAKE_CONT_REAR_ERRORS'')) nullptr INIT_FROM_DB_FLAG
  ]"

definition co_dict_2118 :: "(eIndex \<Rightarrow> 32 word) \<Rightarrow> CO_OBJ_T list" where
  "co_dict_2118 static_cast_uint32_t = [
    CO_OBJ (CO_KEY 0x2118 0 (CO_UNSIGNED8, CO_OBJ_D_R)) None 10 int_0 {},
    CO_OBJ (CO_KEY 0x2118 1 (CO_UNSIGNED16, CO_OBJ_RW)) None (static_cast_uint32_t (eIndex ''BRAKE_CURVE_TIME_1'')) nullptr INIT_FROM_DB_FLAG,
    CO_OBJ (CO_KEY 0x2118 2 (CO_UNSIGNED16, CO_OBJ_RW)) None (static_cast_uint32_t (eIndex ''BRAKE_CURVE_TIME_2'')) nullptr INIT_FROM_DB_FLAG,
    CO_OBJ (CO_KEY 0x2118 3 (CO_UNSIGNED16, CO_OBJ_RW)) None (static_cast_uint32_t (eIndex ''BRAKE_CURVE_TIME_3'')) nullptr INIT_FROM_DB_FLAG,
    CO_OBJ (CO_KEY 0x2118 4 (CO_UNSIGNED16, CO_OBJ_RW)) None (static_cast_uint32_t (eIndex ''BRAKE_CURVE_TIME_4'')) nullptr INIT_FROM_DB_FLAG,
    CO_OBJ (CO_KEY 0x2118 5 (CO_UNSIGNED16, CO_OBJ_RW)) None (static_cast_uint32_t (eIndex ''BRAKE_CURVE_TIME_5'')) nullptr INIT_FROM_DB_FLAG,
    CO_OBJ (CO_KEY 0x2118 6 (CO_UNSIGNED8, CO_OBJ_RW)) None (static_cast_uint32_t (eIndex ''BRAKE_CURVE_PRESSURE_1'')) nullptr INIT_FROM_DB_FLAG,
    CO_OBJ (CO_KEY 0x2118 7 (CO_UNSIGNED8, CO_OBJ_RW)) None (static_cast_uint32_t (eIndex ''BRAKE_CURVE_PRESSURE_2'')) nullptr INIT_FROM_DB_FLAG,
    CO_OBJ (CO_KEY 0x2118 8 (CO_UNSIGNED8, CO_OBJ_RW)) None (static_cast_uint32_t (eIndex ''BRAKE_CURVE_PRESSURE_3'')) nullptr INIT_FROM_DB_FLAG,
    CO_OBJ (CO_KEY 0x2118 9 (CO_UNSIGNED8, CO_OBJ_RW)) None (static_cast_uint32_t (eIndex ''BRAKE_CURVE_PRESSURE_4'')) nullptr INIT_FROM_DB_FLAG,
    CO_OBJ (CO_KEY 0x2118 10 (CO_UNSIGNED8, CO_OBJ_RW)) None (static_cast_uint32_t (eIndex ''BRAKE_CURVE_PRESSURE_5'')) nullptr INIT_FROM_DB_FLAG
  ]"

definition co_dict_2120 :: "(eIndex \<Rightarrow> 32 word) \<Rightarrow> CO_OBJ_T list" where
  "co_dict_2120 static_cast_uint32_t = [
    CO_OBJ (CO_KEY 0x2120 0 (CO_UNSIGNED8, CO_OBJ_D_R)) None 4 int_0 {},
    CO_OBJ (CO_KEY 0x2120 1 (CO_UNSIGNED8, CO_OBJ_R)) None (static_cast_uint32_t (eIndex ''SYSTEM_BKU_ONLINE'')) nullptr INIT_FROM_DB_FLAG,
    CO_OBJ (CO_KEY 0x2120 2 (CO_UNSIGNED16, CO_OBJ_RW)) None (static_cast_uint32_t (eIndex ''POWER_BKU_TURNOFF_TIMEOUT_MS'')) nullptr INIT_FROM_DB_FLAG,
    CO_OBJ (CO_KEY 0x2120 3 (CO_UNSIGNED16, CO_OBJ_RW)) None (static_cast_uint32_t (eIndex ''SYSTEM_BKU_MSG_TIMEOUT'')) nullptr INIT_FROM_DB_FLAG,
    CO_OBJ (CO_KEY 0x2120 4 (CO_UNSIGNED16, CO_OBJ_RW)) None (static_cast_uint32_t (eIndex ''JOYSTICK_TIMEOUT_MS'')) nullptr INIT_FROM_DB_FLAG
  ]"

definition co_dict_2121 :: "(eIndex \<Rightarrow> 32 word) \<Rightarrow> CO_OBJ_T list" where
  "co_dict_2121 static_cast_uint32_t = [
    CO_OBJ (CO_KEY 0x2121 0 (CO_UNSIGNED8, CO_OBJ_D_R)) None 2 int_0 {},
    CO_OBJ (CO_KEY 0x2121 1 (CO_UNSIGNED32, CO_OBJ_R)) None (static_cast_uint32_t (eIndex ''SYSTEM_MAINLOOP_TIME'')) nullptr INIT_FROM_DB_FLAG,
    CO_OBJ (CO_KEY 0x2121 2 (CO_UNSIGNED32, CO_OBJ_R)) None (static_cast_uint32_t (eIndex ''SYSTEM_MAINLOOP_MAX_TIME'')) nullptr INIT_FROM_DB_FLAG
  ]"

definition co_dict_2125 :: "(eIndex \<Rightarrow> 32 word) \<Rightarrow> CO_OBJ_T list" where
  "co_dict_2125 static_cast_uint32_t = [
    CO_OBJ (CO_KEY 0x2125 0 (CO_UNSIGNED8, CO_OBJ_D_R)) None 1 int_0 {},
    CO_OBJ (CO_KEY 0x2125 1 (CO_UNSIGNED32, CO_OBJ_RW)) (Some CO_COUNTER) (static_cast_uint32_t (eIndex ''RESET_ERRORS_CMD_CANOPEN'')) nullptr INIT_FROM_DB_FLAG
  ]"

definition co_dict_2126 :: "(eIndex \<Rightarrow> 32 word) \<Rightarrow> CO_OBJ_T list" where
  "co_dict_2126 static_cast_uint32_t = [
    CO_OBJ (CO_KEY 0x2126 0 (CO_UNSIGNED8, CO_OBJ_D_R)) None 11 int_0 {},
    CO_OBJ (CO_KEY 0x2126 1 (CO_UNSIGNED8, CO_OBJ_R)) None (static_cast_uint32_t (eIndex ''LOG_LAST_IDX'')) nullptr INIT_FROM_DB_FLAG,
    CO_OBJ (CO_KEY 0x2126 2 (CO_UNSIGNED16, CO_OBJ_R)) None (static_cast_uint32_t (eIndex ''LOG_FAULT_0'')) nullptr INIT_FROM_DB_FLAG,
    CO_OBJ (CO_KEY 0x2126 3 (CO_UNSIGNED16, CO_OBJ_R)) None (static_cast_uint32_t (eIndex ''LOG_FAULT_1'')) nullptr INIT_FROM_DB_FLAG,
    CO_OBJ (CO_KEY 0x2126 4 (CO_UNSIGNED16, CO_OBJ_R)) None (static_cast_uint32_t (eIndex ''LOG_FAULT_2'')) nullptr INIT_FROM_DB_FLAG,
    CO_OBJ (CO_KEY 0x2126 5 (CO_UNSIGNED16, CO_OBJ_R)) None (static_cast_uint32_t (eIndex ''LOG_FAULT_3'')) nullptr INIT_FROM_DB_FLAG,
    CO_OBJ (CO_KEY 0x2126 6 (CO_UNSIGNED16, CO_OBJ_R)) None (static_cast_uint32_t (eIndex ''LOG_FAULT_4'')) nullptr INIT_FROM_DB_FLAG,
    CO_OBJ (CO_KEY 0x2126 7 (CO_UNSIGNED16, CO_OBJ_R)) None (static_cast_uint32_t (eIndex ''LOG_FAULT_5'')) nullptr INIT_FROM_DB_FLAG,
    CO_OBJ (CO_KEY 0x2126 8 (CO_UNSIGNED16, CO_OBJ_R)) None (static_cast_uint32_t (eIndex ''LOG_FAULT_6'')) nullptr INIT_FROM_DB_FLAG,
    CO_OBJ (CO_KEY 0x2126 9 (CO_UNSIGNED16, CO_OBJ_R)) None (static_cast_uint32_t (eIndex ''LOG_FAULT_7'')) nullptr INIT_FROM_DB_FLAG,
    CO_OBJ (CO_KEY 0x2126 10 (CO_UNSIGNED16, CO_OBJ_R)) None (static_cast_uint32_t (eIndex ''LOG_FAULT_8'')) nullptr INIT_FROM_DB_FLAG,
    CO_OBJ (CO_KEY 0x2126 11 (CO_UNSIGNED16, CO_OBJ_R)) None (static_cast_uint32_t (eIndex ''LOG_FAULT_9'')) nullptr INIT_FROM_DB_FLAG
  ]"

definition co_dict_2130 :: "(eIndex \<Rightarrow> 32 word) \<Rightarrow> CO_OBJ_T list" where
  "co_dict_2130 static_cast_uint32_t = [
    CO_OBJ (CO_KEY 0x2130 0 (CO_UNSIGNED8, CO_OBJ_D_R)) None 10 int_0 {},
    CO_OBJ (CO_KEY 0x2130 1 (CO_UNSIGNED8, CO_OBJ_R)) None (static_cast_uint32_t (eIndex ''SUSPENSION_ENABLE_PIN_SIGNAL'')) nullptr INIT_FROM_DB_FLAG,
    CO_OBJ (CO_KEY 0x2130 2 (CO_SIGNED16, CO_OBJ_R)) None (static_cast_uint32_t (eIndex ''SUSPENSION_HEIGHT_CUR_1'')) nullptr INIT_FROM_DB_FLAG,
    CO_OBJ (CO_KEY 0x2130 3 (CO_SIGNED16, CO_OBJ_R)) None (static_cast_uint32_t (eIndex ''SUSPENSION_HEIGHT_CUR_2'')) nullptr INIT_FROM_DB_FLAG,
    CO_OBJ (CO_KEY 0x2130 4 (CO_SIGNED16, CO_OBJ_R)) None (static_cast_uint32_t (eIndex ''SUSPENSION_HEIGHT_CUR_3'')) nullptr INIT_FROM_DB_FLAG,
    CO_OBJ (CO_KEY 0x2130 5 (CO_SIGNED16, CO_OBJ_R)) None (static_cast_uint32_t (eIndex ''SUSPENSION_HEIGHT_CUR_4'')) nullptr INIT_FROM_DB_FLAG,
    CO_OBJ (CO_KEY 0x2130 6 (CO_UNSIGNED16, CO_OBJ_R)) None (static_cast_uint32_t (eIndex ''SUSPENSION_PRESSURE_CUR_1'')) nullptr INIT_FROM_DB_FLAG,
    CO_OBJ (CO_KEY 0x2130 7 (CO_UNSIGNED16, CO_OBJ_R)) None (static_cast_uint32_t (eIndex ''SUSPENSION_PRESSURE_CUR_2'')) nullptr INIT_FROM_DB_FLAG,
    CO_OBJ (CO_KEY 0x2130 8 (CO_UNSIGNED16, CO_OBJ_R)) None (static_cast_uint32_t (eIndex ''SUSPENSION_PRESSURE_CUR_3'')) nullptr INIT_FROM_DB_FLAG,
    CO_OBJ (CO_KEY 0x2130 9 (CO_UNSIGNED16, CO_OBJ_R)) None (static_cast_uint32_t (eIndex ''SUSPENSION_PRESSURE_CUR_4'')) nullptr INIT_FROM_DB_FLAG,
    CO_OBJ (CO_KEY 0x2130 10 (CO_UNSIGNED32, CO_OBJ_R)) None (static_cast_uint32_t (eIndex ''SUSPENSION_TASK_DETAILED_STATUS'')) nullptr INIT_FROM_DB_FLAG
  ]"

definition co_dict_2131 :: "(eIndex \<Rightarrow> 32 word) \<Rightarrow> CO_OBJ_T list" where
  "co_dict_2131 static_cast_uint32_t = [
    CO_OBJ (CO_KEY 0x2131 0 (CO_UNSIGNED8, CO_OBJ_D_R)) None 13 int_0 {},
    CO_OBJ (CO_KEY 0x2131 1 (CO_UNSIGNED16, CO_OBJ_RW)) None (static_cast_uint32_t (eIndex ''SUSPENSION_PRESSURE_MAX'')) nullptr INIT_FROM_DB_FLAG,
    CO_OBJ (CO_KEY 0x2131 2 (CO_UNSIGNED16, CO_OBJ_RW)) None (static_cast_uint32_t (eIndex ''SUSPENSION_PRESSURE_MIN'')) nullptr INIT_FROM_DB_FLAG,
    CO_OBJ (CO_KEY 0x2131 3 (CO_UNSIGNED16, CO_OBJ_RW)) None (static_cast_uint32_t (eIndex ''SUSPENSION_HEIGHT_TOLERANCE'')) nullptr INIT_FROM_DB_FLAG,
    CO_OBJ (CO_KEY 0x2131 4 (CO_UNSIGNED8, CO_OBJ_RW)) None (static_cast_uint32_t (eIndex ''SUSPENSION_PRESSURE_SENSOR_FILTER_PARAM'')) nullptr INIT_FROM_DB_FLAG,
    CO_OBJ (CO_KEY 0x2131 5 (CO_UNSIGNED8, CO_OBJ_RW)) None (static_cast_uint32_t (eIndex ''SUSPENSION_HEIGHT_SENSOR_FILTER_PARAM'')) nullptr INIT_FROM_DB_FLAG,
    CO_OBJ (CO_KEY 0x2131 6 (CO_UNSIGNED8, CO_OBJ_RW)) None (static_cast_uint32_t (eIndex ''SUSPENSION_HEIGHT_INVERT_1'')) nullptr INIT_FROM_DB_FLAG,
    CO_OBJ (CO_KEY 0x2131 7 (CO_UNSIGNED8, CO_OBJ_RW)) None (static_cast_uint32_t (eIndex ''SUSPENSION_HEIGHT_INVERT_2'')) nullptr INIT_FROM_DB_FLAG,
    CO_OBJ (CO_KEY 0x2131 8 (CO_UNSIGNED8, CO_OBJ_RW)) None (static_cast_uint32_t (eIndex ''SUSPENSION_HEIGHT_INVERT_3'')) nullptr INIT_FROM_DB_FLAG,
    CO_OBJ (CO_KEY 0x2131 9 (CO_UNSIGNED8, CO_OBJ_RW)) None (static_cast_uint32_t (eIndex ''SUSPENSION_HEIGHT_INVERT_4'')) nullptr INIT_FROM_DB_FLAG,
    CO_OBJ (CO_KEY 0x2131 10 (CO_SIGNED16, CO_OBJ_RW)) None (static_cast_uint32_t (eIndex ''SUSPENSION_HEIGHT_H_OFFSET_1'')) nullptr INIT_FROM_DB_FLAG,
    CO_OBJ (CO_KEY 0x2131 11 (CO_SIGNED16, CO_OBJ_RW)) None (static_cast_uint32_t (eIndex ''SUSPENSION_HEIGHT_H_OFFSET_2'')) nullptr INIT_FROM_DB_FLAG,
    CO_OBJ (CO_KEY 0x2131 12 (CO_SIGNED16, CO_OBJ_RW)) None (static_cast_uint32_t (eIndex ''SUSPENSION_HEIGHT_H_OFFSET_3'')) nullptr INIT_FROM_DB_FLAG,
    CO_OBJ (CO_KEY 0x2131 13 (CO_SIGNED16, CO_OBJ_RW)) None (static_cast_uint32_t (eIndex ''SUSPENSION_HEIGHT_H_OFFSET_4'')) nullptr INIT_FROM_DB_FLAG
  ]"

definition co_dict_2135 :: "(eIndex \<Rightarrow> 32 word) \<Rightarrow> CO_OBJ_T list" where
  "co_dict_2135 static_cast_uint32_t = [
    CO_OBJ (CO_KEY 0x2135 0 (CO_UNSIGNED8, CO_OBJ_D_R)) None 6 int_0 {},
    CO_OBJ (CO_KEY 0x2135 1 (CO_UNSIGNED16, CO_OBJ_R)) None (static_cast_uint32_t (eIndex ''SYSTEM_24V_VOLTAGE'')) nullptr INIT_FROM_DB_FLAG,
    CO_OBJ (CO_KEY 0x2135 2 (CO_UNSIGNED16, CO_OBJ_R)) None (static_cast_uint32_t (eIndex ''SYSTEM_12V_VOLTAGE'')) nullptr INIT_FROM_DB_FLAG,
    CO_OBJ (CO_KEY 0x2135 3 (CO_UNSIGNED16, CO_OBJ_RW)) None (static_cast_uint32_t (eIndex ''SYSTEM_24V_VOLTAGE_LOWER_LIM'')) nullptr INIT_FROM_DB_FLAG,
    CO_OBJ (CO_KEY 0x2135 4 (CO_UNSIGNED16, CO_OBJ_RW)) None (static_cast_uint32_t (eIndex ''SYSTEM_24V_VOLTAGE_UPPER_LIM'')) nullptr INIT_FROM_DB_FLAG,
    CO_OBJ (CO_KEY 0x2135 5 (CO_UNSIGNED16, CO_OBJ_RW)) None (static_cast_uint32_t (eIndex ''SYSTEM_12V_VOLTAGE_LOWER_LIM'')) nullptr INIT_FROM_DB_FLAG,
    CO_OBJ (CO_KEY 0x2135 6 (CO_UNSIGNED16, CO_OBJ_RW)) None (static_cast_uint32_t (eIndex ''SYSTEM_12V_VOLTAGE_UPPER_LIM'')) nullptr INIT_FROM_DB_FLAG
  ]"

definition co_dict_2140 :: "(eIndex \<Rightarrow> 32 word) \<Rightarrow> CO_OBJ_T list" where
  "co_dict_2140 static_cast_uint32_t = [
    CO_OBJ (CO_KEY 0x2140 0 (CO_UNSIGNED8, CO_OBJ_D_R)) None 7 int_0 {},
    CO_OBJ (CO_KEY 0x2140 1 (CO_UNSIGNED16, CO_OBJ_RW)) None (static_cast_uint32_t (eIndex ''BMS_TIMEOUT_MS'')) nullptr INIT_FROM_DB_FLAG,
    CO_OBJ (CO_KEY 0x2140 2 (CO_UNSIGNED16, CO_OBJ_RW)) None (static_cast_uint32_t (eIndex ''CHARGER_TIMEOUT_MS'')) nullptr INIT_FROM_DB_FLAG,
    CO_OBJ (CO_KEY 0x2140 3 (CO_UNSIGNED16, CO_OBJ_RW)) None (static_cast_uint32_t (eIndex ''CHARGER_PSTED_VOLTAGE_THRES'')) nullptr INIT_FROM_DB_FLAG,
    CO_OBJ (CO_KEY 0x2140 4 (CO_UNSIGNED16, CO_OBJ_RW)) None (static_cast_uint32_t (eIndex ''CHARGER_IGNORE_VOLT_ERR_TIMEOUT_MS'')) nullptr INIT_FROM_DB_FLAG,
    CO_OBJ (CO_KEY 0x2140 5 (CO_UNSIGNED8, CO_OBJ_R)) None (static_cast_uint32_t (eIndex ''SYSTEM_BMS_ONLINE'')) nullptr INIT_FROM_DB_FLAG,
    CO_OBJ (CO_KEY 0x2140 6 (CO_UNSIGNED8, CO_OBJ_R)) None (static_cast_uint32_t (eIndex ''SYSTEM_BZU_ONLINE'')) nullptr INIT_FROM_DB_FLAG,
    CO_OBJ (CO_KEY 0x2140 7 (CO_UNSIGNED32, CO_OBJ_R)) None (static_cast_uint32_t (eIndex ''BMS_MULTIMSG_PAGE_DEBUG'')) nullptr INIT_FROM_DB_FLAG
  ]"

definition co_dict_2145 :: "(eIndex \<Rightarrow> 32 word) \<Rightarrow> CO_OBJ_T list" where
  "co_dict_2145 static_cast_uint32_t = [
    CO_OBJ (CO_KEY 0x2145 0 (CO_UNSIGNED8, CO_OBJ_D_R)) None 2 int_0 {},
    CO_OBJ (CO_KEY 0x2145 1 (CO_UNSIGNED8, CO_OBJ_RW)) None (static_cast_uint32_t (eIndex ''PARKING_BRAKE_CMD_HOLD_CANOPEN'')) nullptr INIT_FROM_DB_FLAG,
    CO_OBJ (CO_KEY 0x2145 2 (CO_UNSIGNED8, CO_OBJ_R)) None (static_cast_uint32_t (eIndex ''PARKING_BRAKE_HELD_CANOPEN'')) nullptr INIT_FROM_DB_FLAG
  ]"

definition co_dict_2146 :: "(eIndex \<Rightarrow> 32 word) \<Rightarrow> CO_OBJ_T list" where
  "co_dict_2146 static_cast_uint32_t = [
    CO_OBJ (CO_KEY 0x2146 0 (CO_UNSIGNED8, CO_OBJ_D_R)) None 2 int_0 {},
    CO_OBJ (CO_KEY 0x2146 1 (CO_UNSIGNED16, CO_OBJ_RW)) None (static_cast_uint32_t (eIndex ''BRAKE_DISCRETE_ACCUM_TIMEOUT_MS'')) nullptr INIT_FROM_DB_FLAG,
    CO_OBJ (CO_KEY 0x2146 2 (CO_UNSIGNED16, CO_OBJ_RW)) None (static_cast_uint32_t (eIndex ''BRAKE_DISCRETE_TOTAL_TIMEOUT_MS'')) nullptr INIT_FROM_DB_FLAG
  ]"

definition co_dict_2150 :: "(eIndex \<Rightarrow> 32 word) \<Rightarrow> CO_OBJ_T list" where
  "co_dict_2150 static_cast_uint32_t = [
    CO_OBJ (CO_KEY 0x2150 0 (CO_UNSIGNED8, CO_OBJ_D_R)) None 3 int_0 {},
    CO_OBJ (CO_KEY 0x2150 1 (CO_UNSIGNED32, CO_OBJ_R)) None (static_cast_uint32_t (eIndex ''INPUT_RED_BUTTON'')) nullptr INIT_FROM_DB_FLAG,
    CO_OBJ (CO_KEY 0x2150 2 (CO_UNSIGNED8, CO_OBJ_R)) None (static_cast_uint32_t (eIndex ''INPUT_ANTIFREEZE_SENSOR'')) nullptr INIT_FROM_DB_FLAG,
    CO_OBJ (CO_KEY 0x2150 3 (CO_UNSIGNED8, CO_OBJ_R)) None (static_cast_uint32_t (eIndex ''INPUT_BRAKE_FLUID_SENSOR'')) nullptr INIT_FROM_DB_FLAG
  ]"

definition co_dict_2160 :: "(eIndex \<Rightarrow> 32 word) \<Rightarrow> CO_OBJ_T list" where
  "co_dict_2160 static_cast_uint32_t = [
    CO_OBJ (CO_KEY 0x2160 0 (CO_UNSIGNED8, CO_OBJ_D_R)) None 17 int_0 {},
    CO_OBJ (CO_KEY 0x2160 1 (CO_UNSIGNED8, CO_OBJ_RW)) None (static_cast_uint32_t (eIndex ''ABS_WHEEL_TICK_COUNT'')) nullptr INIT_FROM_DB_FLAG,
    CO_OBJ (CO_KEY 0x2160 2 (CO_UNSIGNED16, CO_OBJ_RW)) None (static_cast_uint32_t (eIndex ''ABS_WHEEL_DIAMETER'')) nullptr INIT_FROM_DB_FLAG,
    CO_OBJ (CO_KEY 0x2160 3 (CO_SIGNED16, CO_OBJ_RW)) None (static_cast_uint32_t (eIndex ''ABS_WHEEL_MIN_SPEED_THRESHOLD'')) nullptr INIT_FROM_DB_FLAG,
    CO_OBJ (CO_KEY 0x2160 4 (CO_SIGNED16, CO_OBJ_RW)) None (static_cast_uint32_t (eIndex ''ABS_MOTOR_MIN_SPEED_THRESHOLD'')) nullptr INIT_FROM_DB_FLAG,
    CO_OBJ (CO_KEY 0x2160 5 (CO_UNSIGNED16, CO_OBJ_RW)) None (static_cast_uint32_t (eIndex ''ABS_WARNING_COUNT_THRESHOLD'')) nullptr INIT_FROM_DB_FLAG,
    CO_OBJ (CO_KEY 0x2160 6 (CO_UNSIGNED16, CO_OBJ_RW)) None (static_cast_uint32_t (eIndex ''ABS_FAILURE_COUNT_THRESHOLD'')) nullptr INIT_FROM_DB_FLAG,
    CO_OBJ (CO_KEY 0x2160 7 (CO_UNSIGNED8, CO_OBJ_RW)) None (static_cast_uint32_t (eIndex ''ABS_SENSOR_MAPPING_FL'')) nullptr INIT_FROM_DB_FLAG,
    CO_OBJ (CO_KEY 0x2160 8 (CO_UNSIGNED8, CO_OBJ_RW)) None (static_cast_uint32_t (eIndex ''ABS_SENSOR_MAPPING_FR'')) nullptr INIT_FROM_DB_FLAG,
    CO_OBJ (CO_KEY 0x2160 9 (CO_UNSIGNED8, CO_OBJ_RW)) None (static_cast_uint32_t (eIndex ''ABS_SENSOR_MAPPING_RL'')) nullptr INIT_FROM_DB_FLAG,
    CO_OBJ (CO_KEY 0x2160 10 (CO_UNSIGNED8, CO_OBJ_RW)) None (static_cast_uint32_t (eIndex ''ABS_SENSOR_MAPPING_RR'')) nullptr INIT_FROM_DB_FLAG,
    CO_OBJ (CO_KEY 0x2160 11 (CO_UNSIGNED8, CO_OBJ_RW)) None (static_cast_uint32_t (eIndex ''ABS_FILTER_FACTOR'')) nullptr INIT_FROM_DB_FLAG,
    CO_OBJ (CO_KEY 0x2160 12 (CO_SIGNED16, CO_OBJ_R)) None (static_cast_uint32_t (eIndex ''ABS_VELOCITY'')) nullptr INIT_FROM_DB_FLAG,
    CO_OBJ (CO_KEY 0x2160 13 (CO_SIGNED16, CO_OBJ_R)) None (static_cast_uint32_t (eIndex ''ABS_WHEEL_FREQ_FL_CANOPEN'')) nullptr INIT_FROM_DB_FLAG,
    CO_OBJ (CO_KEY 0x2160 14 (CO_SIGNED16, CO_OBJ_R)) None (static_cast_uint32_t (eIndex ''ABS_WHEEL_FREQ_FR_CANOPEN'')) nullptr INIT_FROM_DB_FLAG,
    CO_OBJ (CO_KEY 0x2160 15 (CO_SIGNED16, CO_OBJ_R)) None (static_cast_uint32_t (eIndex ''ABS_WHEEL_FREQ_RL_CANOPEN'')) nullptr INIT_FROM_DB_FLAG,
    CO_OBJ (CO_KEY 0x2160 16 (CO_SIGNED16, CO_OBJ_R)) None (static_cast_uint32_t (eIndex ''ABS_WHEEL_FREQ_RR_CANOPEN'')) nullptr INIT_FROM_DB_FLAG,
    CO_OBJ (CO_KEY 0x2160 17 (CO_SIGNED16, CO_OBJ_RW)) None (static_cast_uint32_t (eIndex ''ABS_MIN_VELOCITY_THRESHOLD'')) nullptr INIT_FROM_DB_FLAG
  ]"

definition co_dict_2165 :: "(eIndex \<Rightarrow> 32 word) \<Rightarrow> CO_OBJ_T list" where
  "co_dict_2165 static_cast_uint32_t = [
    CO_OBJ (CO_KEY 0x2165 0 (CO_UNSIGNED8, CO_OBJ_D_R)) None 7 int_0 {},
    CO_OBJ (CO_KEY 0x2165 1 (CO_UNSIGNED8, CO_OBJ_RW)) None (static_cast_uint32_t (eIndex ''COOLING_MOTOR_TEMP_MIN'')) nullptr INIT_FROM_DB_FLAG,
    CO_OBJ (CO_KEY 0x2165 2 (CO_UNSIGNED8, CO_OBJ_RW)) None (static_cast_uint32_t (eIndex ''COOLING_MOTOR_TEMP_MAX'')) nullptr INIT_FROM_DB_FLAG,
    CO_OBJ (CO_KEY 0x2165 3 (CO_UNSIGNED8, CO_OBJ_RW)) None (static_cast_uint32_t (eIndex ''COOLING_INVERTOR_TEMP_MIN'')) nullptr INIT_FROM_DB_FLAG,
    CO_OBJ (CO_KEY 0x2165 4 (CO_UNSIGNED8, CO_OBJ_RW)) None (static_cast_uint32_t (eIndex ''COOLING_INVERTOR_TEMP_MAX'')) nullptr INIT_FROM_DB_FLAG,
    CO_OBJ (CO_KEY 0x2165 5 (CO_UNSIGNED8, CO_OBJ_RW)) None (static_cast_uint32_t (eIndex ''COOLING_COIL_TEMP_MIN'')) nullptr INIT_FROM_DB_FLAG,
    CO_OBJ (CO_KEY 0x2165 6 (CO_UNSIGNED8, CO_OBJ_RW)) None (static_cast_uint32_t (eIndex ''COOLING_COIL_TEMP_MAX'')) nullptr INIT_FROM_DB_FLAG,
    CO_OBJ (CO_KEY 0x2165 7 (CO_UNSIGNED8, CO_OBJ_RW)) None (static_cast_uint32_t (eIndex ''COOLING_FAN_ENABLE'')) nullptr INIT_FROM_DB_FLAG
  ]"

definition co_dict :: "(eIndex \<Rightarrow> 32 word) \<Rightarrow> co_row list" where
  "co_dict static_cast_uint32_t =
     map Obj
      (co_dict_1000 @ co_dict_1008 @ co_dict_1017 static_cast_uint32_t @ co_dict_1018 @
       co_dict_1200 @ co_dict_2100 static_cast_uint32_t @ co_dict_2101 static_cast_uint32_t @
       co_dict_2102 static_cast_uint32_t @ co_dict_2103 @ co_dict_2107 static_cast_uint32_t @
       co_dict_2108 static_cast_uint32_t @ co_dict_2109 static_cast_uint32_t @
       co_dict_2110 static_cast_uint32_t @ co_dict_2111 static_cast_uint32_t @
       co_dict_2112 static_cast_uint32_t @ co_dict_2113 static_cast_uint32_t @
       co_dict_2114 static_cast_uint32_t @ co_dict_2115 static_cast_uint32_t @
       co_dict_2116 static_cast_uint32_t @ co_dict_2117 static_cast_uint32_t @
       co_dict_2118 static_cast_uint32_t @ co_dict_2120 static_cast_uint32_t @
       co_dict_2121 static_cast_uint32_t @ co_dict_2125 static_cast_uint32_t @
       co_dict_2126 static_cast_uint32_t @ co_dict_2130 static_cast_uint32_t @
       co_dict_2131 static_cast_uint32_t @ co_dict_2135 static_cast_uint32_t @
       co_dict_2140 static_cast_uint32_t @ co_dict_2145 static_cast_uint32_t @
       co_dict_2146 static_cast_uint32_t @ co_dict_2150 static_cast_uint32_t @
       co_dict_2160 static_cast_uint32_t @ co_dict_2165 static_cast_uint32_t)
     @ [CO_OBJ_DIR_ENDMARK]"

text \<open>\<open>k_dict_size = sizeof(co_dict) / sizeof(co_dict[0])\<close>: the number of rows, end mark included.\<close>

definition k_dict_size :: "(eIndex \<Rightarrow> 32 word) \<Rightarrow> nat" where
  "k_dict_size c = length (co_dict c)"

text \<open>
  The used objects of a table are the records before the end mark
  (\<open>CO_OBJ_DIR_ENDMARK /* mark end of used objects */\<close>).
\<close>

fun used_objects :: "co_row list \<Rightarrow> CO_OBJ_T list" where
  "used_objects [] = []"
| "used_objects (CO_OBJ_DIR_ENDMARK # rs) = []"
| "used_objects (Obj obj # rs) = obj # used_objects rs"

text \<open>The (index, sub-index) part of a record's key, ordered lexicographically.\<close>

definition od_key :: "CO_OBJ_T \<Rightarrow> 16 word \<times> 8 word" where
  "od_key obj = (Index (Key obj), Subindex (Key obj))"

section \<open>The metadata table \<open>OBJECT_DICTIONARY\<close>\<close>

text \<open>
  \<open>objectdictionary.cpp\<close> initialises a \<open>std::map<ODEntryKey, ODEntryValue>\<close>. The two
  structs and the display types are declared in \<open>objectdictionary.h\<close>, which is not among
  the sources.
\<close>

text \<open>
  Modelled from the spec: the display type of an entry, declared in the absent header; the
  enumerators are the ones the initialisers use.
\<close>

datatype ODEntryType = OD_STRING | OD_UINT32 | OD_FLOAT32 | OD_ENUM | OD_FUNC

text \<open>
  Modelled from the spec: the key struct of the absent header, the pair (index, sub-index)
  of the initialisers \<open>{0x1008, 0x00}\<close>.
\<close>

type_synonym ODEntryKey = "16 word \<times> 8 word"

text \<open>
  Modelled from the spec: the value struct of the absent header. In the order of the
  initialisers it holds the group, the subgroup, the display name, the unit, the display
  type and the flags "monitorable" and "configurable".
\<close>

datatype ODEntryValue = ODEntryValue
  (od_group: string) (od_subgroup: string) (od_name: string) (od_unit: string)
  (od_type: ODEntryType) (monitorable: bool) (configurable: bool)

text \<open>The initialiser list, in the order of the file (units outside ASCII as their UTF-8 bytes).\<close>

definition OBJECT_DICTIONARY_init :: "(ODEntryKey \<times> ODEntryValue) list" where
  "OBJECT_DICTIONARY_init = [
    ((0x1008, 0x00), ODEntryValue ''INFO'' ''DEVICE'' ''DEVICE NAME'' '''' OD_STRING True False),
    ((0x5FFF, 0x00), ODEntryValue ''INFO'' ''SOFTWARE'' ''SOFTWARE VERSION'' '''' OD_UINT32 True False),
    ((0x5FFF, 0x01), ODEntryValue ''INFO'' ''SOFTWARE'' ''BUILD CONFIGURATION'' '''' OD_STRING True False),
    ((0x2000, 0x00), ODEntryValue ''WATCH'' ''WATCH'' ''UPTIME'' ''s'' OD_FLOAT32 True False),
    ((0x2000, 0x01), ODEntryValue ''WATCH'' ''WATCH'' ''DRIVE_STATE'' '''' OD_ENUM True False),
    ((0x2000, 0x02), ODEntryValue ''WATCH'' ''WATCH'' ''FAULTS'' '''' OD_UINT32 True False),
    ((0x2000, 0x03), ODEntryValue ''WATCH'' ''WATCH'' ''DC_VOLTAGE'' ''V'' OD_FLOAT32 True False),
    ((0x2000, 0x04), ODEntryValue ''WATCH'' ''WATCH'' ''DC_CURRENT'' ''A'' OD_FLOAT32 True False),
    ((0x2000, 0x05), ODEntryValue ''WATCH'' ''WATCH'' ''FIELD_CURRENT'' ''A'' OD_FLOAT32 True True),
    ((0x2000, 0x06), ODEntryValue ''WATCH'' ''WATCH'' ''STATOR_CURRENT'' ''A'' OD_FLOAT32 True False),
    ((0x2000, 0x07), ODEntryValue ''WATCH'' ''WATCH'' ''PHA_CURRENT'' ''A'' OD_FLOAT32 True False),
    ((0x2000, 0x08), ODEntryValue ''WATCH'' ''WATCH'' ''PHB_CURRENT'' ''A'' OD_FLOAT32 True False),
    ((0x2000, 0x09), ODEntryValue ''WATCH'' ''WATCH'' ''PHC_CURRENT'' ''A'' OD_FLOAT32 True False),
    ((0x2000, 0x0A), ODEntryValue ''WATCH'' ''WATCH'' ''D_CURRENT'' ''A'' OD_FLOAT32 True False),
    ((0x2000, 0x0B), ODEntryValue ''WATCH'' ''WATCH'' ''Q_CURRENT'' ''A'' OD_FLOAT32 True False),
    ((0x2000, 0x0C), ODEntryValue ''WATCH'' ''WATCH'' ''PHA_TEMP'' ([CHR 0xC2, CHR 0xB0] @ ''C'') OD_FLOAT32 True False),
    ((0x2000, 0x0D), ODEntryValue ''WATCH'' ''WATCH'' ''PHB_TEMP'' ([CHR 0xC2, CHR 0xB0] @ ''C'') OD_FLOAT32 True False),
    ((0x2000, 0x0E), ODEntryValue ''WATCH'' ''WATCH'' ''PHC_TEMP'' ([CHR 0xC2, CHR 0xB0] @ ''C'') OD_FLOAT32 True False),
    ((0x2000, 0x0F), ODEntryValue ''WATCH'' ''WATCH'' ''CASE_TEMP'' ([CHR 0xC2, CHR 0xB0] @ ''C'') OD_FLOAT32 True False),
    ((0x2000, 0x10), ODEntryValue ''WATCH'' ''WATCH'' ''MOTOR_S_TEMP'' ([CHR 0xC2, CHR 0xB0] @ ''C'') OD_FLOAT32 True False),
    ((0x2000, 0x11), ODEntryValue ''WATCH'' ''WATCH'' ''MOTOR_FW_TEMP'' ([CHR 0xC2, CHR 0xB0] @ ''C'') OD_FLOAT32 True False),
    ((0x2000, 0x12), ODEntryValue ''WATCH'' ''WATCH'' ''GAMMA_ANGLE_DEG'' [CHR 0xC2, CHR 0xB0] OD_FLOAT32 True True),
    ((0x2000, 0x13), ODEntryValue ''WATCH'' ''WATCH'' ''SPEED_RPM'' ''rpm'' OD_FLOAT32 True True),
    ((0x2000, 0x14), ODEntryValue ''WATCH'' ''WATCH'' ''TORQUE'' ''Nm'' OD_FLOAT32 True False),
    ((0x2000, 0x15), ODEntryValue ''WATCH'' ''WATCH'' ''MECH_POWER'' ''W'' OD_FLOAT32 True False),
    ((0x2000, 0x16), ODEntryValue ''WATCH'' ''WATCH'' ''OUT_ELEC_POWER'' ''W'' OD_FLOAT32 True False),
    ((0x2001, 0x00), ODEntryValue ''DRIVE CONTROL'' ''DRIVE CONTROL'' ''POWER UP DRIVE'' '''' OD_FUNC False True),
    ((0x2001, 0x01), ODEntryValue ''DRIVE CONTROL'' ''DRIVE CONTROL'' ''POWER DOWN DRIVE'' '''' OD_FUNC False True),
    ((0x2002, 0x00), ODEntryValue ''SYSTEM CONTROL'' ''SYSTEM CONTROL'' ''RESET DEVICE'' '''' OD_FUNC False True),
    ((0x2002, 0x01), ODEntryValue ''SYSTEM CONTROL'' ''SYSTEM CONTROL'' ''RESET PARAMETERS'' '''' OD_FUNC False True),
    ((0x2002, 0x02), ODEntryValue ''SYSTEM CONTROL'' ''SYSTEM CONTROL'' ''APPLY PARAMETERS'' '''' OD_FUNC False True),
    ((0x2002, 0x03), ODEntryValue ''SYSTEM CONTROL'' ''SYSTEM CONTROL'' ''BEGIN POSITION SENSOR CALIBRATION'' '''' OD_FUNC False True),
    ((0x2002, 0x04), ODEntryValue ''SYSTEM CONTROL'' ''SYSTEM CONTROL'' ''INVERT ROTATION'' '''' OD_FUNC False True),
    ((0x2002, 0x05), ODEntryValue ''SYSTEM CONTROL'' ''SYSTEM CONTROL'' ''RESET FAULTS'' '''' OD_FUNC False True),
    ((0x2100, 0x00), ODEntryValue ''CONFIG'' ''MOTOR'' ''R'' [CHR 0xCE, CHR 0xA9] OD_FLOAT32 True True),
    ((0x2100, 0x01), ODEntryValue ''CONFIG'' ''MOTOR'' ''LD'' ''H'' OD_FLOAT32 True True),
    ((0x2100, 0x02), ODEntryValue ''CONFIG'' ''MOTOR'' ''KLD'' '''' OD_FLOAT32 True True),
    ((0x2100, 0x03), ODEntryValue ''CONFIG'' ''MOTOR'' ''LQ'' ''H'' OD_FLOAT32 True True),
    ((0x2100, 0x04), ODEntryValue ''CONFIG'' ''MOTOR'' ''KLQ'' '''' OD_FLOAT32 True True),
    ((0x2100, 0x05), ODEntryValue ''CONFIG'' ''MOTOR'' ''OTP_STATOR'' ([CHR 0xC2, CHR 0xB0] @ ''C'') OD_FLOAT32 True True),
    ((0x2100, 0x06), ODEntryValue ''CONFIG'' ''MOTOR'' ''OTP_FW'' ([CHR 0xC2, CHR 0xB0] @ ''C'') OD_FLOAT32 True True),
    ((0x2100, 0x07), ODEntryValue ''CONFIG'' ''MOTOR'' ''FAN_TEMP_TH_ON'' ([CHR 0xC2, CHR 0xB0] @ ''C'') OD_FLOAT32 True True),
    ((0x2100, 0x08), ODEntryValue ''CONFIG'' ''MOTOR'' ''FAN_TEMP_TH_OFF'' ([CHR 0xC2, CHR 0xB0] @ ''C'') OD_FLOAT32 True True),
    ((0x2101, 0x00), ODEntryValue ''CONFIG'' ''MODEL'' ''REFERENCE'' ''n-M'' OD_ENUM True True),
    ((0x2101, 0x01), ODEntryValue ''CONFIG'' ''MODEL_REGULATORS'' ''KP_SPEED'' '''' OD_FLOAT32 True True),
    ((0x2101, 0x02), ODEntryValue ''CONFIG'' ''MODEL_REGULATORS'' ''KI_SPEED'' '''' OD_FLOAT32 True True),
    ((0x2101, 0x03), ODEntryValue ''CONFIG'' ''MODEL_REGULATORS'' ''KP_ID'' '''' OD_FLOAT32 True True),
    ((0x2101, 0x04), ODEntryValue ''CONFIG'' ''MODEL_REGULATORS'' ''KI_ID'' '''' OD_FLOAT32 True True),
    ((0x2101, 0x05), ODEntryValue ''CONFIG'' ''MODEL_REGULATORS'' ''KP_IQ'' '''' OD_FLOAT32 True True),
    ((0x2101, 0x06), ODEntryValue ''CONFIG'' ''MODEL_REGULATORS'' ''KI_IQ'' '''' OD_FLOAT32 True True),
    ((0x2101, 0x07), ODEntryValue ''CONFIG'' ''MODEL_REGULATORS'' ''KP_IF'' '''' OD_FLOAT32 True True),
    ((0x2101, 0x08), ODEntryValue ''CONFIG'' ''MODEL_REGULATORS'' ''KI_IF'' '''' OD_FLOAT32 True True),
    ((0x2101, 0x09), ODEntryValue ''CONFIG'' ''MODEL'' ''IS_MOTOR_MAX'' ''A'' OD_FLOAT32 True True),
    ((0x2101, 0x0A), ODEntryValue ''CONFIG'' ''MODEL'' ''IS_GENER_MAX'' ''A'' OD_FLOAT32 True True),
    ((0x2101, 0x0B), ODEntryValue ''CONFIG'' ''MODEL'' ''IF_MAX'' ''A'' OD_FLOAT32 True True),
    ((0x2101, 0x0C), ODEntryValue ''CONFIG'' ''MODEL'' ''TORQUE_POS_MAX'' ''Nm'' OD_FLOAT32 True True),
    ((0x2101, 0x0D), ODEntryValue ''CONFIG'' ''MODEL'' ''TORQUE_NEG_MAX'' ''Nm'' OD_FLOAT32 True True),
    ((0x2101, 0x0E), ODEntryValue ''CONFIG'' ''MODEL'' ''SPEED_MAX'' ''rpm'' OD_FLOAT32 True True),
    ((0x2101, 0x0F), ODEntryValue ''CONFIG'' ''MODEL_FLUX_WEAKENING'' ''KP_FLUXWEAK'' '''' OD_FLOAT32 True True),
    ((0x2101, 0x10), ODEntryValue ''CONFIG'' ''MODEL_FLUX_WEAKENING'' ''KI_FLUXWEAK'' '''' OD_FLOAT32 True True),
    ((0x2101, 0x11), ODEntryValue ''CONFIG'' ''MODEL_FLUX_WEAKENING'' ''ID_MAX_FLUXWEAK'' ''A'' OD_FLOAT32 True True),
    ((0x2102, 0x00), ODEntryValue ''CONFIG'' ''CONVERTER'' ''UVP_DC'' ''V'' OD_FLOAT32 True True),
    ((0x2102, 0x01), ODEntryValue ''CONFIG'' ''CONVERTER'' ''OVP_DC'' ''V'' OD_FLOAT32 True True),
    ((0x2102, 0x02), ODEntryValue ''CONFIG'' ''CONVERTER'' ''OCP_PHASE'' ''A'' OD_FLOAT32 True True),
    ((0x2102, 0x03), ODEntryValue ''CONFIG'' ''CONVERTER'' ''OCP_FIELD'' ''A'' OD_FLOAT32 True True),
    ((0x2102, 0x04), ODEntryValue ''CONFIG'' ''CONVERTER'' ''OCP_DC'' ''A'' OD_FLOAT32 True True),
    ((0x2102, 0x05), ODEntryValue ''CONFIG'' ''CONVERTER'' ''OTP_JUNCTION'' ([CHR 0xC2, CHR 0xB0] @ ''C'') OD_FLOAT32 True True),
    ((0x2102, 0x06), ODEntryValue ''CONFIG'' ''CONVERTER'' ''OTP_CASE'' ([CHR 0xC2, CHR 0xB0] @ ''C'') OD_FLOAT32 True True),
    ((0x2102, 0x07), ODEntryValue ''CONFIG'' ''CONVERTER'' ''FAN_TEMP_TH_ON'' ([CHR 0xC2, CHR 0xB0] @ ''C'') OD_FLOAT32 True True),
    ((0x2102, 0x08), ODEntryValue ''CONFIG'' ''CONVERTER'' ''FAN_TEMP_TH_OFF'' ([CHR 0xC2, CHR 0xB0] @ ''C'') OD_FLOAT32 True True),
    ((0x2103, 0x00), ODEntryValue ''CONFIG'' ''CONTACTOR'' ''DCLINK_CHARGE_THRESHOLD'' ''V'' OD_FLOAT32 True True),
    ((0x2103, 0x01), ODEntryValue ''CONFIG'' ''CONTACTOR'' ''DCLINK_CHARGE_TIMEOUT'' ''ms'' OD_UINT32 True True),
    ((0x2103, 0x02), ODEntryValue ''CONFIG'' ''CONTACTOR'' ''DCLINK_CONTACTOR_HOLDUP'' ''ms'' OD_UINT32 True True),
    ((0x2103, 0x03), ODEntryValue ''CONFIG'' ''CONTACTOR'' ''DCLINK_DISCHARGE_THRESHOLD'' ''V'' OD_FLOAT32 True True),
    ((0x2103, 0x04), ODEntryValue ''CONFIG'' ''CONTACTOR'' ''DCLINK_DISCHARGE_TIMEOUT'' ''ms'' OD_UINT32 True True),
    ((0x2104, 0x00), ODEntryValue ''CONFIG'' ''MCOSERVER'' ''PERIOD_HB'' ''ms'' OD_UINT32 True True),
    ((0x2104, 0x01), ODEntryValue ''CONFIG'' ''MCOSERVER'' ''PERIOD_TPDO1'' ''ms'' OD_UINT32 True True),
    ((0x2104, 0x02), ODEntryValue ''CONFIG'' ''MCOSERVER'' ''PERIOD_TPDO2'' ''ms'' OD_UINT32 True True),
    ((0x2104, 0x03), ODEntryValue ''CONFIG'' ''MCOSERVER'' ''PERIOD_TPDO3'' ''ms'' OD_UINT32 True True),
    ((0x2104, 0x04), ODEntryValue ''CONFIG'' ''MCOSERVER'' ''PERIOD_TPDO4'' ''ms'' OD_UINT32 True True),
    ((0x2105, 0x00), ODEntryValue ''CONFIG'' ''POSSENS'' ''SECTORS'' '''' OD_UINT32 True True),
    ((0x2105, 0x01), ODEntryValue ''CONFIG'' ''POSSENS'' ''CAL_S_CURRENT'' ''A'' OD_FLOAT32 True True),
    ((0x2105, 0x02), ODEntryValue ''CONFIG'' ''POSSENS'' ''CAL_F_CURRENT'' ''A'' OD_FLOAT32 True True),
    ((0x2105, 0x03), ODEntryValue ''CONFIG'' ''POSSENS'' ''CAL_SPEED_RPM'' ''rpm'' OD_FLOAT32 True True),
    ((0xFFFF, 0xFF), ODEntryValue ''NULL'' ''NULL'' ''END_OF_OD'' '''' OD_FUNC False False)
  ]"

text \<open>
  The map built from the list: a \<open>std::map\<close> keeps the first element of an initialiser
  list for each key, as \<open>map_of\<close> does.
\<close>

definition OBJECT_DICTIONARY :: "ODEntryKey \<rightharpoonup> ODEntryValue" where
  "OBJECT_DICTIONARY = map_of OBJECT_DICTIONARY_init"

section \<open>Properties of the tables\<close>

text \<open>
  A numbering of the enumerators to run the table on: every theorem about \<open>co_dict\<close> holds
  for every numbering, and the closed instances below use this one.
\<close>

definition sample_ids :: "eIndex \<Rightarrow> 32 word" where
  "sample_ids e = 0"

text \<open>A record carries \<open>INIT_FROM_DB_FLAG\<close> when the flag is among its \<open>ExtraFlags\<close>.\<close>

definition init_from_db :: "CO_OBJ_T \<Rightarrow> bool" where
  "init_from_db obj = (INIT_FROM_DB_FLAG \<subseteq> ExtraFlags obj)"

text \<open>The indices present in a table, and the distinct sub-indices greater than 0 of an index.\<close>

definition indices :: "CO_OBJ_T list \<Rightarrow> 16 word set" where
  "indices objs = fst ` set (map od_key objs)"

definition sub_indices :: "CO_OBJ_T list \<Rightarrow> 16 word \<Rightarrow> 8 word list" where
  "sub_indices objs i =
     remdups (filter (\<lambda>s. 0 < s) (map snd (filter (\<lambda>k. fst k = i) (map od_key objs))))"

text \<open>
  The values stored inline (direct access) at sub-index 0, by index, and the values stored
  there for one index.
\<close>

definition inline_sub0 :: "CO_OBJ_T list \<Rightarrow> (16 word \<times> 32 word) list" where
  "inline_sub0 objs =
     map (\<lambda>obj. (Index (Key obj), Data obj))
       (filter (\<lambda>obj. Subindex (Key obj) = 0 \<and> direct (Access (Key obj))) objs)"

definition stored_at_sub0 :: "CO_OBJ_T list \<Rightarrow> 16 word \<Rightarrow> 32 word list" where
  "stored_at_sub0 objs i = map snd (filter (\<lambda>p. fst p = i) (inline_sub0 objs))"

text \<open>
  Sub-index 0 of index \<open>i\<close> holds the count: one value is stored inline there, and it is the
  number of distinct sub-indices greater than 0 of \<open>i\<close>.
\<close>

definition sub0_is_count :: "CO_OBJ_T list \<Rightarrow> 16 word \<Rightarrow> bool" where
  "sub0_is_count objs i = (map unat (stored_at_sub0 objs i) = [length (sub_indices objs i)])"

text \<open>The records of a table with a given (index, sub-index), and the writable ones.\<close>

definition descriptors :: "CO_OBJ_T list \<Rightarrow> 16 word \<times> 8 word \<Rightarrow> CO_OBJ_T list" where
  "descriptors objs k = filter (\<lambda>obj. od_key obj = k) objs"

definition is_writable :: "CO_OBJ_T \<Rightarrow> bool" where
  "is_writable obj = writable (Access (Key obj))"

definition is_readable :: "CO_OBJ_T \<Rightarrow> bool" where
  "is_readable obj = readable (Access (Key obj))"

section \<open>The registry the table is written for\<close>

text \<open>
  The table is served by the CANopen stack (\<open>canopen/include/canopen_api.h\<close>), which is not
  among the sources: this section holds the registry as the specification describes it.
\<close>

text \<open>
  Modelled from the spec: the error kinds of section 7, absent from the sources.
\<close>

datatype error = NotFound | AccessDenied | SizeMismatch | BackingStoreUnavailable | BuildError

text \<open>
  Modelled from the spec: the operation of a request (section 6), absent from the sources.
\<close>

datatype operation = READ | WRITE

text \<open>
  Modelled from the spec: the lookup \<open>find(key) -> Entry Descriptor or NotFound\<close> of the
  Dictionary Table (section 4.1), absent from the sources. Lookup is by key, not by
  position, over the descriptors before the sentinel; the spec allows a linear scan.
\<close>

fun find_obj :: "CO_OBJ_T list \<Rightarrow> 16 word \<times> 8 word \<Rightarrow> error + CO_OBJ_T" where
  "find_obj [] k = Inl NotFound"
| "find_obj (obj # objs) k = (if od_key obj = k then Inr obj else find_obj objs k)"

text \<open>
  Modelled from the spec: \<open>find\<close> on a table as the array holds it (section 4.1), absent from
  the sources: the scan runs over the records before the end mark.
\<close>

definition find_entry :: "co_row list \<Rightarrow> 16 word \<times> 8 word \<Rightarrow> error + CO_OBJ_T" where
  "find_entry tbl k = find_obj (used_objects tbl) k"

text \<open>
  Modelled from the spec: the storage mode of a descriptor (section 3), absent from the
  sources. A record initialised from the database is deferred to the backing store; a
  direct record stores its value inline, constant when it cannot be written; any other
  record points to external memory.
\<close>

datatype storage_mode =
  inline_constant | inline_mutable | pointer_to_external | deferred_backing_store

text \<open>
  Modelled from the spec: which storage mode a record has (sections 3 and 4.2), absent from
  the sources, read from the flags the table gives the record.
\<close>

definition storage_mode_of :: "CO_OBJ_T \<Rightarrow> storage_mode" where
  "storage_mode_of obj =
     (if init_from_db obj then deferred_backing_store
      else if direct (Access (Key obj)) then
        (if is_writable obj then inline_mutable else inline_constant)
      else pointer_to_external)"

text \<open>
  Modelled from the spec: the wire size of a data width in bytes (sections 3 and 4.4),
  absent from the sources; a string has no width of its own.
\<close>

fun width_bytes :: "co_size \<Rightarrow> nat" where
  "width_bytes CO_UNSIGNED8 = 1"
| "width_bytes CO_UNSIGNED16 = 2"
| "width_bytes CO_UNSIGNED32 = 4"
| "width_bytes CO_SIGNED8 = 1"
| "width_bytes CO_SIGNED16 = 2"
| "width_bytes CO_SIGNED32 = 4"
| "width_bytes CO_STRING = 0"

text \<open>
  Modelled from the spec: the plain-scalar byte copy to the wire (section 4.3), absent from
  the sources; the bytes are in the CANopen wire order, least significant first.
\<close>

fun to_bytes :: "nat \<Rightarrow> 32 word \<Rightarrow> 8 word list" where
  "to_bytes 0 v = []"
| "to_bytes (Suc n) v = ucast v # to_bytes n (drop_bit 8 v)"

text \<open>
  Modelled from the spec: the plain-scalar byte copy from the wire (section 4.3), absent
  from the sources; it decodes what \<open>to_bytes\<close> encodes.
\<close>

fun of_bytes :: "8 word list \<Rightarrow> 32 word" where
  "of_bytes [] = 0"
| "of_bytes (b # bs) = ucast b + 256 * of_bytes bs"

text \<open>
  Modelled from the spec: the values behind the table (sections 3 and 4.2), absent from
  the sources. \<open>embedded\<close> is the storage embedded in a descriptor once it has been
  written or resolved, \<open>external\<close> the externally owned memory by address, \<open>string_table\<close>
  the string buffers, and \<open>backing\<close> the external key-value store (\<open>get\<close> is the lookup,
  \<open>set\<close> the update).
\<close>

record registry =
  embedded :: "16 word \<times> 8 word \<Rightarrow> 32 word option"
  external :: "VoidPtr \<Rightarrow> 32 word"
  string_table :: "VoidPtr \<Rightarrow> 8 word list"
  backing :: "32 word \<Rightarrow> 32 word option"

text \<open>
  Modelled from the spec: the registry at startup (section 3), absent from the sources:
  nothing is resolved or written yet, and the backing store holds nothing.
\<close>

definition initial_registry :: registry where
  "initial_registry =
     \<lparr>embedded = (\<lambda>k. None), external = (\<lambda>p. 0), string_table = (\<lambda>p. []), backing = (\<lambda>k. None)\<rparr>"

text \<open>
  Modelled from the spec: the Storage Resolver (section 4.2), absent from the sources. A
  deferred descriptor is resolved once, at first touch, by querying the backing store with
  the identifier it carries, and the value is cached inline; a failed lookup falls back
  to zero and is reported. The result says whether the resolution succeeded.
\<close>

definition resolve :: "CO_OBJ_T \<Rightarrow> registry \<Rightarrow> bool \<times> registry" where
  "resolve obj st =
     (if storage_mode_of obj = deferred_backing_store \<and> embedded st (od_key obj) = None then
        (case backing st (Data obj) of
           Some v \<Rightarrow> (True, st\<lparr>embedded := (embedded st)(od_key obj \<mapsto> v)\<rparr>)
         | None \<Rightarrow> (False, st\<lparr>embedded := (embedded st)(od_key obj \<mapsto> 0)\<rparr>))
      else (True, st))"

text \<open>
  Modelled from the spec: the value in the slot of a descriptor (section 4.2), absent from
  the sources. An inline constant is the \<open>Data\<close> of the record; a deferred descriptor that
  is not resolved yet has the default zero.
\<close>

definition slot_value :: "CO_OBJ_T \<Rightarrow> registry \<Rightarrow> 32 word" where
  "slot_value obj st =
     (case storage_mode_of obj of
        inline_constant \<Rightarrow> Data obj
      | inline_mutable \<Rightarrow> (case embedded st (od_key obj) of Some v \<Rightarrow> v | None \<Rightarrow> Data obj)
      | pointer_to_external \<Rightarrow> external st (DataPtr obj)
      | deferred_backing_store \<Rightarrow> (case embedded st (od_key obj) of Some v \<Rightarrow> v | None \<Rightarrow> 0))"

text \<open>
  Modelled from the spec: storing a value in the slot of a descriptor (sections 4.2 and 6),
  absent from the sources; a deferred descriptor also passes the value to the backing
  store (\<open>set\<close>).
\<close>

definition slot_update :: "CO_OBJ_T \<Rightarrow> 32 word \<Rightarrow> registry \<Rightarrow> registry" where
  "slot_update obj v st =
     (case storage_mode_of obj of
        pointer_to_external \<Rightarrow> st\<lparr>external := (external st)(DataPtr obj := v)\<rparr>
      | deferred_backing_store \<Rightarrow>
          st\<lparr>embedded := (embedded st)(od_key obj \<mapsto> v), backing := (backing st)(Data obj \<mapsto> v)\<rparr>
      | _ \<Rightarrow> st\<lparr>embedded := (embedded st)(od_key obj \<mapsto> v)\<rparr>)"

text \<open>
  Modelled from the spec: the size a handler of the Type/Handler Registry reports (section
  4.3), absent from the sources: the length of the string buffer for the string accessor,
  the data width otherwise.
\<close>

definition entry_size :: "CO_OBJ_T \<Rightarrow> registry \<Rightarrow> nat" where
  "entry_size obj st =
     (case Type obj of
        Some CO_TSTRING \<Rightarrow> length (string_table st (DataPtr obj))
      | _ \<Rightarrow> width_bytes (Size (Key obj)))"

text \<open>
  Modelled from the spec: the read of a handler (section 4.3), absent from the sources: the
  string accessor serves its buffer, any other record the bytes of its slot.
\<close>

definition read_entry :: "CO_OBJ_T \<Rightarrow> registry \<Rightarrow> 8 word list" where
  "read_entry obj st =
     (case Type obj of
        Some CO_TSTRING \<Rightarrow> string_table st (DataPtr obj)
      | _ \<Rightarrow> to_bytes (width_bytes (Size (Key obj))) (slot_value obj st))"

text \<open>
  Modelled from the spec: the write of a handler (section 4.3), absent from the sources:
  the counter increments its sequence instead of storing the payload, a record without a
  handler stores the payload as a plain scalar.
\<close>

definition write_entry :: "CO_OBJ_T \<Rightarrow> 8 word list \<Rightarrow> registry \<Rightarrow> registry" where
  "write_entry obj payload st =
     (case Type obj of
        Some CO_TSTRING \<Rightarrow> st\<lparr>string_table := (string_table st)(DataPtr obj := payload)\<rparr>
      | Some CO_COUNTER \<Rightarrow> slot_update obj (slot_value obj st + 1) st
      | None \<Rightarrow> slot_update obj (of_bytes payload) st)"

text \<open>
  Modelled from the spec: the access set of a descriptor (section 4.4), absent from the
  sources: a read needs read access, a write needs write access.
\<close>

fun permitted :: "operation \<Rightarrow> CO_OBJ_T \<Rightarrow> bool" where
  "permitted READ obj = is_readable obj"
| "permitted WRITE obj = is_writable obj"

text \<open>
  Modelled from the spec: the Access Mediator behind \<open>handle_request(index, subindex,
  operation, payload)\<close> (sections 4.4 and 6), absent from the sources. The key is looked
  up (\<open>NotFound\<close>); the operation must be in the access set of the descriptor
  (\<open>AccessDenied\<close>); a deferred descriptor is resolved; the payload of a write must have
  the size of the descriptor (\<open>SizeMismatch\<close>); then the value is transferred. A request
  whose resolution failed completes on the default value and reports
  \<open>BackingStoreUnavailable\<close>. The result is the reply and the registry after the request.
\<close>

definition handle_request ::
  "co_row list \<Rightarrow> registry \<Rightarrow> 16 word \<Rightarrow> 8 word \<Rightarrow> operation \<Rightarrow> 8 word list
     \<Rightarrow> (error + 8 word list) \<times> registry" where
  "handle_request tbl st i s op payload =
     (case find_entry tbl (i, s) of
        Inl e \<Rightarrow> (Inl e, st)
      | Inr obj \<Rightarrow>
          if \<not> permitted op obj then (Inl AccessDenied, st)
          else
            (case resolve obj st of
               (resolved, st1) \<Rightarrow>
                 if op = WRITE \<and> length payload \<noteq> entry_size obj st1 then (Inl SizeMismatch, st1)
                 else
                   (case (case op of
                            READ \<Rightarrow> (read_entry obj st1, st1)
                          | WRITE \<Rightarrow> ([], write_entry obj payload st1)) of
                      (reply, st2) \<Rightarrow>
                        (if resolved then Inr reply else Inl BackingStoreUnavailable, st2))))"

section \<open>The rows of \<open>co_dict\<close>\<close>

lemma used_objects_rows: "used_objects (map Obj objs @ CO_OBJ_DIR_ENDMARK # rs) = objs"
  by (induction objs) simp_all

lemma co_dict_used:
  "used_objects (co_dict c) =
     co_dict_1000 @ co_dict_1008 @ co_dict_1017 c @ co_dict_1018 @ co_dict_1200 @
     co_dict_2100 c @ co_dict_2101 c @ co_dict_2102 c @ co_dict_2103 @ co_dict_2107 c @
     co_dict_2108 c @ co_dict_2109 c @ co_dict_2110 c @ co_dict_2111 c @ co_dict_2112 c @
     co_dict_2113 c @ co_dict_2114 c @ co_dict_2115 c @ co_dict_2116 c @ co_dict_2117 c @
     co_dict_2118 c @ co_dict_2120 c @ co_dict_2121 c @ co_dict_2125 c @ co_dict_2126 c @
     co_dict_2130 c @ co_dict_2131 c @ co_dict_2135 c @ co_dict_2140 c @ co_dict_2145 c @
     co_dict_2146 c @ co_dict_2150 c @ co_dict_2160 c @ co_dict_2165 c"
  unfolding co_dict_def by (simp only: used_objects_rows)

lemmas co_dict_block_defs =
  co_dict_1000_def co_dict_1008_def co_dict_1017_def co_dict_1018_def co_dict_1200_def
  co_dict_2100_def co_dict_2101_def co_dict_2102_def co_dict_2103_def co_dict_2107_def
  co_dict_2108_def co_dict_2109_def co_dict_2110_def co_dict_2111_def co_dict_2112_def
  co_dict_2113_def co_dict_2114_def co_dict_2115_def co_dict_2116_def co_dict_2117_def
  co_dict_2118_def co_dict_2120_def co_dict_2121_def co_dict_2125_def co_dict_2126_def
  co_dict_2130_def co_dict_2131_def co_dict_2135_def co_dict_2140_def co_dict_2145_def
  co_dict_2146_def co_dict_2150_def co_dict_2160_def co_dict_2165_def

lemma co_dict_block_keys:
"map od_key co_dict_1000 = [(0x1000, 0), (0x1005, 0)]"
  "map od_key co_dict_1008 = [(0x1008, 0), (0x1009, 0), (0x100A, 0)]"
  "map od_key (co_dict_1017 c) = [(0x1017, 0)]"
  "map od_key co_dict_1018 = [(0x1018, 0), (0x1018, 1), (0x1018, 2), (0x1018, 3), (0x1018, 4)]"
  "map od_key co_dict_1200 = [(0x1200, 0), (0x1200, 1), (0x1200, 2)]"
  "map od_key (co_dict_2100 c) = [(0x2100, 0), (0x2100, 1), (0x2100, 2)]"
  "map od_key (co_dict_2101 c) = [(0x2101, 0), (0x2101, 1)]"
  "map od_key (co_dict_2102 c) = [(0x2102, 0), (0x2102, 1), (0x2102, 2)]"
  "map od_key co_dict_2103 = [(0x2103, 0), (0x2103, 1), (0x2103, 2), (0x2103, 3), (0x2103, 4)]"
  "map od_key (co_dict_2107 c) = [(0x2107, 0), (0x2107, 1), (0x2107, 2), (0x2107, 3), (0x2107, 4), (0x2107, 5), (0x2107, 6), (0x2107, 7), (0x2107, 8)]"
  "map od_key (co_dict_2108 c) = [(0x2108, 0), (0x2108, 1), (0x2108, 2), (0x2108, 3), (0x2108, 4), (0x2108, 5), (0x2108, 6), (0x2108, 7), (0x2108, 8), (0x2108, 9), (0x2108, 10), (0x2108, 11), (0x2108, 12), (0x2108, 13), (0x2108, 14), (0x2108, 15), (0x2108, 16)]"
  "map od_key (co_dict_2109 c) = [(0x2109, 0), (0x2109, 1), (0x2109, 2), (0x2109, 3), (0x2109, 4), (0x2109, 5), (0x2109, 6), (0x2109, 7), (0x2109, 8), (0x2109, 9)]"
  "map od_key (co_dict_2110 c) = [(0x2110, 0), (0x2110, 1), (0x2110, 2), (0x2110, 3), (0x2110, 4)]"
  "map od_key (co_dict_2111 c) = [(0x2111, 0), (0x2111, 1), (0x2111, 2), (0x2111, 3), (0x2111, 4), (0x2111, 5), (0x2111, 6), (0x2111, 7), (0x2111, 8), (0x2111, 9), (0x2111, 10), (0x2111, 11), (0x2111, 12), (0x2111, 13), (0x2111, 14)]"
  "map od_key (co_dict_2112 c) = [(0x2112, 0), (0x2112, 1), (0x2112, 2), (0x2112, 3), (0x2112, 4), (0x2112, 5), (0x2112, 6), (0x2112, 7), (0x2112, 8), (0x2112, 9), (0x2112, 10), (0x2112, 11), (0x2112, 12), (0x2112, 13), (0x2112, 14)]"
  "map od_key (co_dict_2113 c) = [(0x2113, 0), (0x2113, 1), (0x2113, 2), (0x2113, 3), (0x2113, 4), (0x2113, 5)]"
  "map od_key (co_dict_2114 c) = [(0x2114, 0), (0x2114, 1), (0x2114, 2), (0x2114, 3)]"
  "map od_key (co_dict_2115 c) = [(0x2115, 0), (0x2115, 1), (0x2115, 2), (0x2115, 3), (0x2115, 4), (0x2115, 5)]"
  "map od_key (co_dict_2116 c) = [(0x2116, 0), (0x2116, 1), (0x2116, 2), (0x2116, 3), (0x2116, 4), (0x2116, 5), (0x2116, 6), (0x2116, 7), (0x2116, 8), (0x2116, 9), (0x2116, 10), (0x2116, 11), (0x2116, 12), (0x2116, 13), (0x2116, 14), (0x2116, 15), (0x2116, 16), (0x2116, 17), (0x2116, 18), (0x2116, 19), (0x2116, 20), (0x2116, 21), (0x2116, 22), (0x2116, 23)]"
  "map od_key (co_dict_2117 c) = [(0x2117, 0), (0x2117, 1), (0x2117, 2), (0x2117, 3), (0x2117, 4), (0x2117, 5), (0x2117, 6), (0x2117, 9), (0x2117, 10), (0x2117, 11), (0x2117, 12), (0x2117, 13), (0x2117, 14), (0x2117, 15)]"
  "map od_key (co_dict_2118 c) = [(0x2118, 0), (0x2118, 1), (0x2118, 2), (0x2118, 3), (0x2118, 4), (0x2118, 5), (0x2118, 6), (0x2118, 7), (0x2118, 8), (0x2118, 9), (0x2118, 10)]"
  "map od_key (co_dict_2120 c) = [(0x2120, 0), (0x2120, 1), (0x2120, 2), (0x2120, 3), (0x2120, 4)]"
  "map od_key (co_dict_2121 c) = [(0x2121, 0), (0x2121, 1), (0x2121, 2)]"
  "map od_key (co_dict_2125 c) = [(0x2125, 0), (0x2125, 1)]"
  "map od_key (co_dict_2126 c) = [(0x2126, 0), (0x2126, 1), (0x2126, 2), (0x2126, 3), (0x2126, 4), (0x2126, 5), (0x2126, 6), (0x2126, 7), (0x2126, 8), (0x2126, 9), (0x2126, 10), (0x2126, 11)]"
  "map od_key (co_dict_2130 c) = [(0x2130, 0), (0x2130, 1), (0x2130, 2), (0x2130, 3), (0x2130, 4), (0x2130, 5), (0x2130, 6), (0x2130, 7), (0x2130, 8), (0x2130, 9), (0x2130, 10)]"
  "map od_key (co_dict_2131 c) = [(0x2131, 0), (0x2131, 1), (0x2131, 2), (0x2131, 3), (0x2131, 4), (0x2131, 5), (0x2131, 6), (0x2131, 7), (0x2131, 8), (0x2131, 9), (0x2131, 10), (0x2131, 11), (0x2131, 12), (0x2131, 13)]"
  "map od_key (co_dict_2135 c) = [(0x2135, 0), (0x2135, 1), (0x2135, 2), (0x2135, 3), (0x2135, 4), (0x2135, 5), (0x2135, 6)]"
  "map od_key (co_dict_2140 c) = [(0x2140, 0), (0x2140, 1), (0x2140, 2), (0x2140, 3), (0x2140, 4), (0x2140, 5), (0x2140, 6), (0x2140, 7)]"
  "map od_key (co_dict_2145 c) = [(0x2145, 0), (0x2145, 1), (0x2145, 2)]"
  "map od_key (co_dict_2146 c) = [(0x2146, 0), (0x2146, 1), (0x2146, 2)]"
  "map od_key (co_dict_2150 c) = [(0x2150, 0), (0x2150, 1), (0x2150, 2), (0x2150, 3)]"
  "map od_key (co_dict_2160 c) = [(0x2160, 0), (0x2160, 1), (0x2160, 2), (0x2160, 3), (0x2160, 4), (0x2160, 5), (0x2160, 6), (0x2160, 7), (0x2160, 8), (0x2160, 9), (0x2160, 10), (0x2160, 11), (0x2160, 12), (0x2160, 13), (0x2160, 14), (0x2160, 15), (0x2160, 16), (0x2160, 17)]"
  "map od_key (co_dict_2165 c) = [(0x2165, 0), (0x2165, 1), (0x2165, 2), (0x2165, 3), (0x2165, 4), (0x2165, 5), (0x2165, 6), (0x2165, 7)]"
  by (simp_all add: co_dict_block_defs CO_OBJ_def CO_KEY_def od_key_def)

lemma co_dict_keys:
  "map od_key (used_objects (co_dict c)) =
     [(0x1000, 0), (0x1005, 0), (0x1008, 0), (0x1009, 0), (0x100A, 0), (0x1017, 0), (0x1018, 0),
       (0x1018, 1), (0x1018, 2), (0x1018, 3), (0x1018, 4), (0x1200, 0), (0x1200, 1), (0x1200, 2),
       (0x2100, 0), (0x2100, 1), (0x2100, 2), (0x2101, 0), (0x2101, 1), (0x2102, 0), (0x2102, 1),
       (0x2102, 2), (0x2103, 0), (0x2103, 1), (0x2103, 2), (0x2103, 3), (0x2103, 4), (0x2107, 0),
       (0x2107, 1), (0x2107, 2), (0x2107, 3), (0x2107, 4), (0x2107, 5), (0x2107, 6), (0x2107, 7),
       (0x2107, 8), (0x2108, 0), (0x2108, 1), (0x2108, 2), (0x2108, 3), (0x2108, 4), (0x2108, 5),
       (0x2108, 6), (0x2108, 7), (0x2108, 8), (0x2108, 9), (0x2108, 10), (0x2108, 11),
       (0x2108, 12), (0x2108, 13), (0x2108, 14), (0x2108, 15), (0x2108, 16), (0x2109, 0),
       (0x2109, 1), (0x2109, 2), (0x2109, 3), (0x2109, 4), (0x2109, 5), (0x2109, 6), (0x2109, 7),
       (0x2109, 8), (0x2109, 9), (0x2110, 0), (0x2110, 1), (0x2110, 2), (0x2110, 3), (0x2110, 4),
       (0x2111, 0), (0x2111, 1), (0x2111, 2), (0x2111, 3), (0x2111, 4), (0x2111, 5), (0x2111, 6),
       (0x2111, 7), (0x2111, 8), (0x2111, 9), (0x2111, 10), (0x2111, 11), (0x2111, 12),
       (0x2111, 13), (0x2111, 14), (0x2112, 0), (0x2112, 1), (0x2112, 2), (0x2112, 3),
       (0x2112, 4), (0x2112, 5), (0x2112, 6), (0x2112, 7), (0x2112, 8), (0x2112, 9),
       (0x2112, 10), (0x2112, 11), (0x2112, 12), (0x2112, 13), (0x2112, 14), (0x2113, 0),
       (0x2113, 1), (0x2113, 2), (0x2113, 3), (0x2113, 4), (0x2113, 5), (0x2114, 0), (0x2114, 1),
       (0x2114, 2), (0x2114, 3), (0x2115, 0), (0x2115, 1), (0x2115, 2), (0x2115, 3), (0x2115, 4),
       (0x2115, 5), (0x2116, 0), (0x2116, 1), (0x2116, 2), (0x2116, 3), (0x2116, 4), (0x2116, 5),
       (0x2116, 6), (0x2116, 7), (0x2116, 8), (0x2116, 9), (0x2116, 10), (0x2116, 11),
       (0x2116, 12), (0x2116, 13), (0x2116, 14), (0x2116, 15), (0x2116, 16), (0x2116, 17),
       (0x2116, 18), (0x2116, 19), (0x2116, 20), (0x2116, 21), (0x2116, 22), (0x2116, 23),
       (0x2117, 0), (0x2117, 1), (0x2117, 2), (0x2117, 3), (0x2117, 4), (0x2117, 5), (0x2117, 6),
       (0x2117, 9), (0x2117, 10), (0x2117, 11), (0x2117, 12), (0x2117, 13), (0x2117, 14),
       (0x2117, 15), (0x2118, 0), (0x2118, 1), (0x2118, 2), (0x2118, 3), (0x2118, 4),
       (0x2118, 5), (0x2118, 6), (0x2118, 7), (0x2118, 8), (0x2118, 9), (0x2118, 10),
       (0x2120, 0), (0x2120, 1), (0x2120, 2), (0x2120, 3), (0x2120, 4), (0x2121, 0), (0x2121, 1),
       (0x2121, 2), (0x2125, 0), (0x2125, 1), (0x2126, 0), (0x2126, 1), (0x2126, 2), (0x2126, 3),
       (0x2126, 4), (0x2126, 5), (0x2126, 6), (0x2126, 7), (0x2126, 8), (0x2126, 9),
       (0x2126, 10), (0x2126, 11), (0x2130, 0), (0x2130, 1), (0x2130, 2), (0x2130, 3),
       (0x2130, 4), (0x2130, 5), (0x2130, 6), (0x2130, 7), (0x2130, 8), (0x2130, 9),
       (0x2130, 10), (0x2131, 0), (0x2131, 1), (0x2131, 2), (0x2131, 3), (0x2131, 4),
       (0x2131, 5), (0x2131, 6), (0x2131, 7), (0x2131, 8), (0x2131, 9), (0x2131, 10),
       (0x2131, 11), (0x2131, 12), (0x2131, 13), (0x2135, 0), (0x2135, 1), (0x2135, 2),
       (0x2135, 3), (0x2135, 4), (0x2135, 5), (0x2135, 6), (0x2140, 0), (0x2140, 1), (0x2140, 2),
       (0x2140, 3), (0x2140, 4), (0x2140, 5), (0x2140, 6), (0x2140, 7), (0x2145, 0), (0x2145, 1),
       (0x2145, 2), (0x2146, 0), (0x2146, 1), (0x2146, 2), (0x2150, 0), (0x2150, 1), (0x2150, 2),
       (0x2150, 3), (0x2160, 0), (0x2160, 1), (0x2160, 2), (0x2160, 3), (0x2160, 4), (0x2160, 5),
       (0x2160, 6), (0x2160, 7), (0x2160, 8), (0x2160, 9), (0x2160, 10), (0x2160, 11),
       (0x2160, 12), (0x2160, 13), (0x2160, 14), (0x2160, 15), (0x2160, 16), (0x2160, 17),
       (0x2165, 0), (0x2165, 1), (0x2165, 2), (0x2165, 3), (0x2165, 4), (0x2165, 5), (0x2165, 6),
       (0x2165, 7)]"
  by (simp only: co_dict_used map_append co_dict_block_keys append.simps)

lemma co_dict_1017_used: "set (co_dict_1017 c) \<subseteq> set (used_objects (co_dict c))"
  unfolding co_dict_used by (simp only: set_append) blast

lemma co_dict_1000_used: "set co_dict_1000 \<subseteq> set (used_objects (co_dict c))"
  unfolding co_dict_used by (simp only: set_append) blast

section \<open>The order of the keys\<close>

lemma less_keys_transp: "transp ((<) :: 16 word \<times> 8 word \<Rightarrow> 16 word \<times> 8 word \<Rightarrow> bool)"
  by (rule transpI) (rule less_trans)

lemma co_dict_keys_sorted: "sorted_wrt (<) (map od_key (used_objects (co_dict c)))"
proof -
  have "successively (<) (map od_key (used_objects (co_dict c)))"
    unfolding co_dict_keys by (simp add: less_prod_def)
  then show ?thesis
    by (simp add: successively_conv_sorted_wrt [OF less_keys_transp])
qed

lemma co_dict_keys_distinct: "distinct (map od_key (used_objects (co_dict c)))"
  using co_dict_keys_sorted [of c] by (simp add: strict_sorted_iff)

text \<open>
  Claim C8. The records of \<open>co_dict\<close> before the end mark are in strictly increasing order
  of (index, sub-index), so every key occurs exactly once; the end mark is the last row
  of the array and the used objects are all the rows before it.
\<close>

theorem co_dict_strictly_increasing:
  "sorted_wrt (<) (map od_key (used_objects (co_dict c)))
   \<and> distinct (map od_key (used_objects (co_dict c)))
   \<and> co_dict c = map Obj (used_objects (co_dict c)) @ [CO_OBJ_DIR_ENDMARK]"
proof -
  have "co_dict c = map Obj (used_objects (co_dict c)) @ [CO_OBJ_DIR_ENDMARK]"
    unfolding co_dict_used unfolding co_dict_def by (rule refl)
  with co_dict_keys_sorted co_dict_keys_distinct show ?thesis by blast
qed

section \<open>The flags of the metadata table\<close>

lemma monitorable_rows:
  "list_all (\<lambda>p. monitorable (snd p) = (od_type (snd p) \<noteq> OD_FUNC)) OBJECT_DICTIONARY_init"
  by (simp add: OBJECT_DICTIONARY_init_def)

text \<open>
  Claim C9. In \<open>OBJECT_DICTIONARY\<close> the flag "monitorable" is false exactly for the entries
  whose display type is \<open>OD_FUNC\<close>: an entry is monitorable if and only if its type is not
  \<open>OD_FUNC\<close>, and the sentinel \<open>(0xFFFF, 0xFF)\<close> is an \<open>OD_FUNC\<close> entry that is not
  monitorable.
\<close>

theorem monitorable_iff_not_func:
  "(\<forall>k v. OBJECT_DICTIONARY k = Some v \<longrightarrow> monitorable v = (od_type v \<noteq> OD_FUNC))
   \<and> (\<exists>v. OBJECT_DICTIONARY (0xFFFF, 0xFF) = Some v \<and> od_type v = OD_FUNC \<and> \<not> monitorable v)"
proof
  show "\<forall>k v. OBJECT_DICTIONARY k = Some v \<longrightarrow> monitorable v = (od_type v \<noteq> OD_FUNC)"
  proof (intro allI impI)
    fix k v assume "OBJECT_DICTIONARY k = Some v"
    then have "(k, v) \<in> set OBJECT_DICTIONARY_init"
      unfolding OBJECT_DICTIONARY_def by (rule map_of_SomeD)
    with monitorable_rows show "monitorable v = (od_type v \<noteq> OD_FUNC)"
      by (fastforce simp: list_all_iff)
  qed
  show "\<exists>v. OBJECT_DICTIONARY (0xFFFF, 0xFF) = Some v \<and> od_type v = OD_FUNC \<and> \<not> monitorable v"
    by (simp add: OBJECT_DICTIONARY_def OBJECT_DICTIONARY_init_def)
qed

theorem monitorable_iff_not_func_witness:
  "OBJECT_DICTIONARY (0x2001, 0x01)
     = Some (ODEntryValue ''DRIVE CONTROL'' ''DRIVE CONTROL'' ''POWER DOWN DRIVE'' '''' OD_FUNC False True)
   \<and> monitorable (ODEntryValue ''DRIVE CONTROL'' ''DRIVE CONTROL'' ''POWER DOWN DRIVE'' '''' OD_FUNC False True)
     = (od_type (ODEntryValue ''DRIVE CONTROL'' ''DRIVE CONTROL'' ''POWER DOWN DRIVE'' '''' OD_FUNC False True) \<noteq> OD_FUNC)"
proof -
  have l: "OBJECT_DICTIONARY (0x2001, 0x01)
     = Some (ODEntryValue ''DRIVE CONTROL'' ''DRIVE CONTROL'' ''POWER DOWN DRIVE'' '''' OD_FUNC False True)"
    by (simp add: OBJECT_DICTIONARY_def OBJECT_DICTIONARY_init_def)
  from monitorable_iff_not_func l show ?thesis by blast
qed

section \<open>Records initialised from the database\<close>

lemma init_from_db_rows:
  "list_all (\<lambda>obj. (init_from_db obj = (DataPtr obj = nullptr \<and> \<not> direct (Access (Key obj))))
     \<and> (init_from_db obj \<longrightarrow> Data obj \<in> range c))
     (used_objects (co_dict c))"
  unfolding co_dict_used list_all_append
  by (simp add: co_dict_block_defs CO_OBJ_def CO_KEY_def init_from_db_def INIT_FROM_DB_FLAG_def
      int_0_def CO_OBJ_D_R_def CO_OBJ_DN_R_def CO_OBJ_R_def CO_OBJ_RW_def)

text \<open>
  Claim C10, as amended. A record of \<open>co_dict\<close> carries \<open>INIT_FROM_DB_FLAG\<close> exactly when its
  \<open>DataPtr\<close> is the null pointer and its key has no direct-access flag; every such record
  stores a database index (the cast of an \<open>eIndex\<close> enumerator) in \<open>Data\<close>.
\<close>

theorem init_from_db_iff_null_indirect:
  assumes "obj \<in> set (used_objects (co_dict c))"
  shows "(init_from_db obj \<longleftrightarrow> DataPtr obj = nullptr \<and> \<not> direct (Access (Key obj)))
     \<and> (init_from_db obj \<longrightarrow> Data obj \<in> range c \<and> \<not> direct (Access (Key obj)))"
  using assms init_from_db_rows [of c] by (auto simp: list_all_iff)

theorem init_from_db_iff_null_indirect_witness:
  "CO_OBJ (CO_KEY 0x1017 0 (CO_UNSIGNED16, CO_OBJ_R)) None
       (sample_ids (eIndex ''CO_PRODUCER_HB'')) nullptr INIT_FROM_DB_FLAG
     \<in> set (used_objects (co_dict sample_ids))
   \<and> init_from_db (CO_OBJ (CO_KEY 0x1017 0 (CO_UNSIGNED16, CO_OBJ_R)) None
       (sample_ids (eIndex ''CO_PRODUCER_HB'')) nullptr INIT_FROM_DB_FLAG)
   \<and> DataPtr (CO_OBJ (CO_KEY 0x1017 0 (CO_UNSIGNED16, CO_OBJ_R)) None
       (sample_ids (eIndex ''CO_PRODUCER_HB'')) nullptr INIT_FROM_DB_FLAG) = nullptr
   \<and> \<not> direct (Access (Key (CO_OBJ (CO_KEY 0x1017 0 (CO_UNSIGNED16, CO_OBJ_R)) None
       (sample_ids (eIndex ''CO_PRODUCER_HB'')) nullptr INIT_FROM_DB_FLAG)))
   \<and> Data (CO_OBJ (CO_KEY 0x1017 0 (CO_UNSIGNED16, CO_OBJ_R)) None
       (sample_ids (eIndex ''CO_PRODUCER_HB'')) nullptr INIT_FROM_DB_FLAG) \<in> range sample_ids"
proof -
  have m: "CO_OBJ (CO_KEY 0x1017 0 (CO_UNSIGNED16, CO_OBJ_R)) None
       (sample_ids (eIndex ''CO_PRODUCER_HB'')) nullptr INIT_FROM_DB_FLAG
     \<in> set (used_objects (co_dict sample_ids))"
    using co_dict_1017_used [of sample_ids] by (simp add: co_dict_1017_def)
  have "DataPtr (CO_OBJ (CO_KEY 0x1017 0 (CO_UNSIGNED16, CO_OBJ_R)) None
       (sample_ids (eIndex ''CO_PRODUCER_HB'')) nullptr INIT_FROM_DB_FLAG) = nullptr"
    "\<not> direct (Access (Key (CO_OBJ (CO_KEY 0x1017 0 (CO_UNSIGNED16, CO_OBJ_R)) None
       (sample_ids (eIndex ''CO_PRODUCER_HB'')) nullptr INIT_FROM_DB_FLAG)))"
    by (simp_all add: CO_OBJ_def CO_KEY_def CO_OBJ_R_def)
  with init_from_db_iff_null_indirect [OF m] m show ?thesis
    by blast
qed

text \<open>
  The claim as stated fails: the record \<open>(0x1000, 0)\<close> is initialised with \<open>0\<close> in \<open>DataPtr\<close>,
  which is the null pointer, and does not carry \<open>INIT_FROM_DB_FLAG\<close>.
\<close>

theorem null_without_init_from_db_counterexample:
  "CO_OBJ (CO_KEY 0x1000 0 (CO_UNSIGNED32, CO_OBJ_D_R)) None 0x198 int_0 {}
     \<in> set (used_objects (co_dict sample_ids))
   \<and> DataPtr (CO_OBJ (CO_KEY 0x1000 0 (CO_UNSIGNED32, CO_OBJ_D_R)) None 0x198 int_0 {}) = nullptr
   \<and> \<not> init_from_db (CO_OBJ (CO_KEY 0x1000 0 (CO_UNSIGNED32, CO_OBJ_D_R)) None 0x198 int_0 {})"
proof -
  have "CO_OBJ (CO_KEY 0x1000 0 (CO_UNSIGNED32, CO_OBJ_D_R)) None 0x198 int_0 {}
      \<in> set (used_objects (co_dict sample_ids))"
    using co_dict_1000_used [of sample_ids] by (simp add: co_dict_1000_def)
  then show ?thesis
    by (simp add: CO_OBJ_def int_0_def init_from_db_def INIT_FROM_DB_FLAG_def)
qed

section \<open>Sub-index 0 and the number of sub-indices\<close>

lemma co_dict_indices:
  "indices (used_objects (co_dict c)) =
     {0x1000, 0x1005, 0x1008, 0x1009, 0x100A, 0x1017, 0x1018, 0x1200, 0x2100, 0x2101, 0x2102,
       0x2103, 0x2107, 0x2108, 0x2109, 0x2110, 0x2111, 0x2112, 0x2113, 0x2114, 0x2115, 0x2116,
       0x2117, 0x2118, 0x2120, 0x2121, 0x2125, 0x2126, 0x2130, 0x2131, 0x2135, 0x2140, 0x2145,
       0x2146, 0x2150, 0x2160, 0x2165}"
  unfolding indices_def co_dict_used map_append set_append image_Un co_dict_block_keys
  by auto

lemma co_dict_inline_sub0:
  "inline_sub0 (used_objects (co_dict c)) =
     [(0x1000, 0x198), (0x1005, 0x80), (0x1018, 4), (0x1200, 2), (0x2100, 2), (0x2101, 1),
       (0x2102, 2), (0x2103, 4), (0x2107, 8), (0x2108, 16), (0x2109, 9), (0x2110, 4),
       (0x2111, 14), (0x2112, 14), (0x2113, 5), (0x2114, 3), (0x2115, 5), (0x2116, 23),
       (0x2117, 15), (0x2118, 10), (0x2120, 4), (0x2121, 2), (0x2125, 1), (0x2126, 11),
       (0x2130, 10), (0x2131, 13), (0x2135, 6), (0x2140, 7), (0x2145, 2), (0x2146, 2),
       (0x2150, 3), (0x2160, 17), (0x2165, 7)]"
  unfolding inline_sub0_def co_dict_used filter_append map_append
  by (simp add: co_dict_block_defs CO_OBJ_def CO_KEY_def
      CO_OBJ_D_R_def CO_OBJ_DN_R_def CO_OBJ_R_def CO_OBJ_RW_def)

lemma co_dict_sub0_counts:
"sub0_is_count (used_objects (co_dict c)) 0x1018"
  "sub0_is_count (used_objects (co_dict c)) 0x1200"
  "sub0_is_count (used_objects (co_dict c)) 0x2100"
  "sub0_is_count (used_objects (co_dict c)) 0x2101"
  "sub0_is_count (used_objects (co_dict c)) 0x2102"
  "sub0_is_count (used_objects (co_dict c)) 0x2103"
  "sub0_is_count (used_objects (co_dict c)) 0x2107"
  "sub0_is_count (used_objects (co_dict c)) 0x2108"
  "sub0_is_count (used_objects (co_dict c)) 0x2109"
  "sub0_is_count (used_objects (co_dict c)) 0x2110"
  "sub0_is_count (used_objects (co_dict c)) 0x2111"
  "sub0_is_count (used_objects (co_dict c)) 0x2112"
  "sub0_is_count (used_objects (co_dict c)) 0x2113"
  "sub0_is_count (used_objects (co_dict c)) 0x2114"
  "sub0_is_count (used_objects (co_dict c)) 0x2115"
  "sub0_is_count (used_objects (co_dict c)) 0x2116"
  "sub0_is_count (used_objects (co_dict c)) 0x2118"
  "sub0_is_count (used_objects (co_dict c)) 0x2120"
  "sub0_is_count (used_objects (co_dict c)) 0x2121"
  "sub0_is_count (used_objects (co_dict c)) 0x2125"
  "sub0_is_count (used_objects (co_dict c)) 0x2126"
  "sub0_is_count (used_objects (co_dict c)) 0x2130"
  "sub0_is_count (used_objects (co_dict c)) 0x2131"
  "sub0_is_count (used_objects (co_dict c)) 0x2135"
  "sub0_is_count (used_objects (co_dict c)) 0x2140"
  "sub0_is_count (used_objects (co_dict c)) 0x2145"
  "sub0_is_count (used_objects (co_dict c)) 0x2146"
  "sub0_is_count (used_objects (co_dict c)) 0x2150"
  "sub0_is_count (used_objects (co_dict c)) 0x2160"
  "sub0_is_count (used_objects (co_dict c)) 0x2165"
  unfolding sub0_is_count_def stored_at_sub0_def co_dict_inline_sub0
  unfolding sub_indices_def co_dict_used map_append filter_append
  by (simp_all add: co_dict_block_keys)

lemma co_dict_no_subs:
"sub_indices (used_objects (co_dict c)) 0x1000 = []"
  "sub_indices (used_objects (co_dict c)) 0x1005 = []"
  "sub_indices (used_objects (co_dict c)) 0x1008 = []"
  "sub_indices (used_objects (co_dict c)) 0x1009 = []"
  "sub_indices (used_objects (co_dict c)) 0x100A = []"
  "sub_indices (used_objects (co_dict c)) 0x1017 = []"
  unfolding sub_indices_def co_dict_used map_append filter_append
  by (simp_all add: co_dict_block_keys)

text \<open>
  Claim C1, as amended. For every index of \<open>co_dict\<close> other than \<open>0x2117\<close> that has a
  sub-index greater than 0, one value is stored inline at sub-index 0 and it equals the
  number of distinct sub-indices greater than 0 of that index.
\<close>

theorem sub0_counts_sub_indices:
  assumes "i \<in> indices (used_objects (co_dict c))"
    and "sub_indices (used_objects (co_dict c)) i \<noteq> []"
    and "i \<noteq> 0x2117"
  shows "sub0_is_count (used_objects (co_dict c)) i"
proof -
  from assms(1) have "i \<in> {0x1000, 0x1005, 0x1008, 0x1009, 0x100A, 0x1017, 0x1018, 0x1200, 0x2100, 0x2101, 0x2102,
       0x2103, 0x2107, 0x2108, 0x2109, 0x2110, 0x2111, 0x2112, 0x2113, 0x2114, 0x2115, 0x2116,
       0x2117, 0x2118, 0x2120, 0x2121, 0x2125, 0x2126, 0x2130, 0x2131, 0x2135, 0x2140, 0x2145,
       0x2146, 0x2150, 0x2160, 0x2165}"
    by (simp only: co_dict_indices)
  then show ?thesis
    using assms(2,3) co_dict_sub0_counts [of c] co_dict_no_subs [of c]
    by (elim insertE emptyE; simp)
qed

theorem sub0_counts_sub_indices_witness:
  "0x2116 \<in> indices (used_objects (co_dict sample_ids))
   \<and> sub_indices (used_objects (co_dict sample_ids)) 0x2116 \<noteq> []
   \<and> sub0_is_count (used_objects (co_dict sample_ids)) 0x2116"
proof -
  have a: "0x2116 \<in> indices (used_objects (co_dict sample_ids))"
    unfolding co_dict_indices by simp
  have b: "sub_indices (used_objects (co_dict sample_ids)) 0x2116 \<noteq> []"
    unfolding sub_indices_def co_dict_used map_append filter_append
    by (simp add: co_dict_block_keys)
  from sub0_counts_sub_indices [OF a b] a b show ?thesis by simp
qed

text \<open>
  The claim as stated fails: index \<open>0x2117\<close> stores 15 at sub-index 0 and has the 13
  sub-indices 1 to 6 and 9 to 15, and index \<open>0x1000\<close>, which has no sub-index greater than
  0, stores \<open>0x198\<close> there.
\<close>

theorem sub0_not_count_counterexample:
  "stored_at_sub0 (used_objects (co_dict sample_ids)) 0x2117 = [15]
   \<and> sub_indices (used_objects (co_dict sample_ids)) 0x2117 = [1, 2, 3, 4, 5, 6, 9, 10, 11, 12, 13, 14, 15]
   \<and> \<not> sub0_is_count (used_objects (co_dict sample_ids)) 0x2117
   \<and> 0x1000 \<in> indices (used_objects (co_dict sample_ids))
   \<and> stored_at_sub0 (used_objects (co_dict sample_ids)) 0x1000 = [0x198]
   \<and> sub_indices (used_objects (co_dict sample_ids)) 0x1000 = []
   \<and> \<not> sub0_is_count (used_objects (co_dict sample_ids)) 0x1000"
  unfolding sub0_is_count_def stored_at_sub0_def co_dict_inline_sub0 co_dict_indices
  unfolding sub_indices_def co_dict_used map_append filter_append
  by (simp add: co_dict_block_keys)

section \<open>Configurable metadata entries and writable records\<close>

lemma co_dict_writable_low:
  "map od_key (filter (\<lambda>obj. is_writable obj \<and> Index (Key obj) \<le> 0x2105) (used_objects (co_dict c)))
     = [(0x2100, 1), (0x2100, 2), (0x2101, 1), (0x2102, 1), (0x2102, 2)]"
  unfolding co_dict_used filter_append map_append
  by (simp add: co_dict_block_defs CO_OBJ_def CO_KEY_def od_key_def is_writable_def
      CO_OBJ_D_R_def CO_OBJ_DN_R_def CO_OBJ_R_def CO_OBJ_RW_def)

lemma configurable_low:
  "list_all (\<lambda>p. configurable (snd p) \<longrightarrow> fst (fst p) \<le> 0x2105) OBJECT_DICTIONARY_init"
  by (simp add: OBJECT_DICTIONARY_init_def)

lemma configurable_five:
  "list_all (\<lambda>k. \<exists>v. OBJECT_DICTIONARY k = Some v \<and> configurable v)
     [(0x2100, 1), (0x2100, 2), (0x2101, 1), (0x2102, 1), (0x2102, 2)]"
  by (simp add: OBJECT_DICTIONARY_def OBJECT_DICTIONARY_init_def)

lemma writable_descriptor_low:
  assumes "fst k \<le> 0x2105"
  shows "(\<exists>obj \<in> set objs. od_key obj = k \<and> is_writable obj)
     \<longleftrightarrow> k \<in> set (map od_key (filter (\<lambda>obj. is_writable obj \<and> Index (Key obj) \<le> 0x2105) objs))"
  using assms by (auto simp: od_key_def)

text \<open>
  Claim C2, as amended. A configurable key of \<open>OBJECT_DICTIONARY\<close> has a writable (read-write
  or write-only) record in \<open>co_dict\<close> if and only if it is one of \<open>(0x2100, 1)\<close>,
  \<open>(0x2100, 2)\<close>, \<open>(0x2101, 1)\<close>, \<open>(0x2102, 1)\<close> and \<open>(0x2102, 2)\<close>, and these five keys are
  configurable; every other configurable key is absent from \<open>co_dict\<close> or names a read-only
  record.
\<close>

theorem configurable_writable_keys:
  "(\<forall>k v. OBJECT_DICTIONARY k = Some v \<and> configurable v \<longrightarrow>
      ((\<exists>obj \<in> set (used_objects (co_dict c)). od_key obj = k \<and> is_writable obj)
        \<longleftrightarrow> k \<in> {(0x2100, 1), (0x2100, 2), (0x2101, 1), (0x2102, 1), (0x2102, 2)}))
   \<and> (\<forall>k \<in> {(0x2100, 1), (0x2100, 2), (0x2101, 1), (0x2102, 1), (0x2102, 2)}.
        \<exists>v. OBJECT_DICTIONARY k = Some v \<and> configurable v)"
proof (intro conjI allI impI)
  fix k v assume a: "OBJECT_DICTIONARY k = Some v \<and> configurable v"
  then have "(k, v) \<in> set OBJECT_DICTIONARY_init"
    unfolding OBJECT_DICTIONARY_def by (auto dest: map_of_SomeD)
  with configurable_low a have "fst k \<le> 0x2105"
    by (fastforce simp: list_all_iff)
  from writable_descriptor_low [OF this, of "used_objects (co_dict c)"]
  show "(\<exists>obj \<in> set (used_objects (co_dict c)). od_key obj = k \<and> is_writable obj)
        \<longleftrightarrow> k \<in> {(0x2100, 1), (0x2100, 2), (0x2101, 1), (0x2102, 1), (0x2102, 2)}"
    unfolding co_dict_writable_low by simp
next
  show "\<forall>k \<in> {(0x2100, 1), (0x2100, 2), (0x2101, 1), (0x2102, 1), (0x2102, 2)}.
        \<exists>v. OBJECT_DICTIONARY k = Some v \<and> configurable v"
    using configurable_five by (simp only: list_all_iff list.set)
qed

theorem configurable_writable_keys_witness:
  "OBJECT_DICTIONARY (0x2100, 0x01) = Some (ODEntryValue ''CONFIG'' ''MOTOR'' ''LD'' ''H'' OD_FLOAT32 True True)
   \<and> configurable (ODEntryValue ''CONFIG'' ''MOTOR'' ''LD'' ''H'' OD_FLOAT32 True True)
   \<and> (\<exists>obj \<in> set (used_objects (co_dict sample_ids)). od_key obj = (0x2100, 1) \<and> is_writable obj)"
proof -
  have l: "OBJECT_DICTIONARY (0x2100, 0x01)
      = Some (ODEntryValue ''CONFIG'' ''MOTOR'' ''LD'' ''H'' OD_FLOAT32 True True)"
    by (simp add: OBJECT_DICTIONARY_def OBJECT_DICTIONARY_init_def)
  have "configurable (ODEntryValue ''CONFIG'' ''MOTOR'' ''LD'' ''H'' OD_FLOAT32 True True)"
    by simp
  with l configurable_writable_keys [of sample_ids] show ?thesis by blast
qed

text \<open>
  The claim as stated fails: \<open>(0x2100, 0x00)\<close> is configurable in \<open>OBJECT_DICTIONARY\<close>, and
  the one record of \<open>co_dict\<close> with that key is read-only.
\<close>

theorem configurable_not_writable_counterexample:
  "OBJECT_DICTIONARY (0x2100, 0x00)
     = Some (ODEntryValue ''CONFIG'' ''MOTOR'' ''R'' [CHR 0xCE, CHR 0xA9] OD_FLOAT32 True True)
   \<and> configurable (ODEntryValue ''CONFIG'' ''MOTOR'' ''R'' [CHR 0xCE, CHR 0xA9] OD_FLOAT32 True True)
   \<and> descriptors (used_objects (co_dict sample_ids)) (0x2100, 0)
     = [CO_OBJ (CO_KEY 0x2100 0 (CO_UNSIGNED8, CO_OBJ_D_R)) None 2 int_0 {}]
   \<and> \<not> is_writable (CO_OBJ (CO_KEY 0x2100 0 (CO_UNSIGNED8, CO_OBJ_D_R)) None 2 int_0 {})"
proof -
  have "descriptors (used_objects (co_dict sample_ids)) (0x2100, 0)
     = [CO_OBJ (CO_KEY 0x2100 0 (CO_UNSIGNED8, CO_OBJ_D_R)) None 2 int_0 {}]"
    unfolding descriptors_def co_dict_used filter_append
    by (simp add: co_dict_block_defs CO_OBJ_def CO_KEY_def od_key_def)
  moreover have "OBJECT_DICTIONARY (0x2100, 0x00)
     = Some (ODEntryValue ''CONFIG'' ''MOTOR'' ''R'' [CHR 0xCE, CHR 0xA9] OD_FLOAT32 True True)"
    by (simp add: OBJECT_DICTIONARY_def OBJECT_DICTIONARY_init_def)
  ultimately show ?thesis
    by (simp add: is_writable_def CO_OBJ_def CO_KEY_def CO_OBJ_D_R_def)
qed

section \<open>Looking a key up\<close>

lemma find_obj_Inr: "find_obj objs k = Inr obj \<Longrightarrow> obj \<in> set objs \<and> od_key obj = k"
  by (induction objs) (auto split: if_splits)

lemma find_obj_absent: "k \<notin> od_key ` set objs \<Longrightarrow> find_obj objs k = Inl NotFound"
  by (induction objs) auto

lemma find_obj_member:
  "obj \<in> set objs \<Longrightarrow> distinct (map od_key objs) \<Longrightarrow> find_obj objs (od_key obj) = Inr obj"
  by (induction objs) auto

lemma distinct_keys_unique:
  "distinct (map od_key objs) \<Longrightarrow> obj \<in> set objs \<Longrightarrow> obj' \<in> set objs
     \<Longrightarrow> od_key obj' = od_key obj \<Longrightarrow> obj' = obj"
  by (simp add: distinct_map inj_on_def)

lemma co_dict_find: 
  "obj \<in> set (used_objects (co_dict c)) \<Longrightarrow> find_entry (co_dict c) (od_key obj) = Inr obj"
  unfolding find_entry_def by (rule find_obj_member [OF _ co_dict_keys_distinct])

lemma co_dict_find_1000:
  "find_entry (co_dict c) (0x1000, 0)
     = Inr (CO_OBJ (CO_KEY 0x1000 0 (CO_UNSIGNED32, CO_OBJ_D_R)) None 0x198 int_0 {})"
proof -
  have "CO_OBJ (CO_KEY 0x1000 0 (CO_UNSIGNED32, CO_OBJ_D_R)) None 0x198 int_0 {}
      \<in> set (used_objects (co_dict c))"
    using co_dict_1000_used [of c] by (simp add: co_dict_1000_def)
  from co_dict_find [OF this] show ?thesis
    by (simp add: od_key_def CO_OBJ_def CO_KEY_def)
qed

text \<open>
  Claim C3. For every key present in \<open>co_dict\<close>, \<open>find\<close> returns the descriptor with that
  key, which is the only descriptor of the table with that key; for every key that is
  not present it returns \<open>NotFound\<close>; and whatever it returns is a descriptor of the table
  whose key is the queried one.
\<close>

theorem find_entry_co_dict:
  "(\<forall>obj \<in> set (used_objects (co_dict c)).
      find_entry (co_dict c) (od_key obj) = Inr obj
      \<and> (\<forall>obj' \<in> set (used_objects (co_dict c)). od_key obj' = od_key obj \<longrightarrow> obj' = obj))
   \<and> (\<forall>k. k \<notin> od_key ` set (used_objects (co_dict c)) \<longrightarrow> find_entry (co_dict c) k = Inl NotFound)
   \<and> (\<forall>k obj. find_entry (co_dict c) k = Inr obj \<longrightarrow>
        od_key obj = k \<and> obj \<in> set (used_objects (co_dict c)))"
proof (intro conjI ballI allI impI)
  fix obj assume "obj \<in> set (used_objects (co_dict c))"
  then show "find_entry (co_dict c) (od_key obj) = Inr obj" by (rule co_dict_find)
next
  fix obj obj'
  assume "obj \<in> set (used_objects (co_dict c))" "obj' \<in> set (used_objects (co_dict c))"
    "od_key obj' = od_key obj"
  with co_dict_keys_distinct [of c] show "obj' = obj" by (rule distinct_keys_unique)
next
  fix k assume "k \<notin> od_key ` set (used_objects (co_dict c))"
  then show "find_entry (co_dict c) k = Inl NotFound"
    unfolding find_entry_def by (rule find_obj_absent)
next
  fix k obj assume "find_entry (co_dict c) k = Inr obj"
  then show "od_key obj = k" "obj \<in> set (used_objects (co_dict c))"
    unfolding find_entry_def by (auto dest: find_obj_Inr)
qed

theorem find_entry_co_dict_witness:
  "find_entry (co_dict sample_ids) (0x1000, 0)
     = Inr (CO_OBJ (CO_KEY 0x1000 0 (CO_UNSIGNED32, CO_OBJ_D_R)) None 0x198 int_0 {})
   \<and> od_key (CO_OBJ (CO_KEY 0x1000 0 (CO_UNSIGNED32, CO_OBJ_D_R)) None 0x198 int_0 {}) = (0x1000, 0)
   \<and> (0x3000, 0) \<notin> od_key ` set (used_objects (co_dict sample_ids))
   \<and> find_entry (co_dict sample_ids) (0x3000, 0) = Inl NotFound"
proof -
  have m: "CO_OBJ (CO_KEY 0x1000 0 (CO_UNSIGNED32, CO_OBJ_D_R)) None 0x198 int_0 {}
      \<in> set (used_objects (co_dict sample_ids))"
    using co_dict_1000_used [of sample_ids] by (simp add: co_dict_1000_def)
  have k: "od_key (CO_OBJ (CO_KEY 0x1000 0 (CO_UNSIGNED32, CO_OBJ_D_R)) None 0x198 int_0 {}) = (0x1000, 0)"
    by (simp add: od_key_def CO_OBJ_def CO_KEY_def)
  have "(0x3000, 0) \<notin> set (map od_key (used_objects (co_dict sample_ids)))"
    unfolding co_dict_used map_append set_append by (simp add: co_dict_block_keys)
  then have n: "(0x3000, 0) \<notin> od_key ` set (used_objects (co_dict sample_ids))"
    by simp
  from find_entry_co_dict [of sample_ids] m k n show ?thesis
    by (metis (no_types, lifting))
qed

section \<open>Serving a request\<close>

lemma obj_1000_flags:
  "is_readable (CO_OBJ (CO_KEY 0x1000 0 (CO_UNSIGNED32, CO_OBJ_D_R)) None 0x198 int_0 {})"
  "\<not> is_writable (CO_OBJ (CO_KEY 0x1000 0 (CO_UNSIGNED32, CO_OBJ_D_R)) None 0x198 int_0 {})"
  "storage_mode_of (CO_OBJ (CO_KEY 0x1000 0 (CO_UNSIGNED32, CO_OBJ_D_R)) None 0x198 int_0 {})
     = inline_constant"
  "Size (Key (CO_OBJ (CO_KEY 0x1000 0 (CO_UNSIGNED32, CO_OBJ_D_R)) None 0x198 int_0 {}))
     = CO_UNSIGNED32"
  "Type (CO_OBJ (CO_KEY 0x1000 0 (CO_UNSIGNED32, CO_OBJ_D_R)) None 0x198 int_0 {}) = None"
  "Data (CO_OBJ (CO_KEY 0x1000 0 (CO_UNSIGNED32, CO_OBJ_D_R)) None 0x198 int_0 {}) = 0x198"
  by (simp_all add: is_readable_def is_writable_def storage_mode_of_def init_from_db_def
      INIT_FROM_DB_FLAG_def CO_OBJ_def CO_KEY_def CO_OBJ_D_R_def)

lemma to_bytes_0x198: "to_bytes 4 (0x198 :: 32 word) = [0x98, 0x01, 0x00, 0x00]"
  by code_simp

text \<open>
  Claim C7. \<open>co_dict\<close> has a descriptor with key \<open>(0x1000, 0)\<close>: 32-bit unsigned, read-only,
  stored inline as the constant \<open>0x198\<close>. A READ of \<open>(0x1000, 0)\<close> returns the four bytes
  \<open>98 01 00 00\<close>, which decode to \<open>0x198\<close>, and leaves the registry as it was; a WRITE to
  the same key returns \<open>AccessDenied\<close>.
\<close>

theorem device_type_request:
  "find_entry (co_dict c) (0x1000, 0)
     = Inr (CO_OBJ (CO_KEY 0x1000 0 (CO_UNSIGNED32, CO_OBJ_D_R)) None 0x198 int_0 {})
   \<and> CO_OBJ_D_R = \<lparr>direct = True, node_id = False, pdo_map = False, readable = True, writable = False\<rparr>
   \<and> storage_mode_of (CO_OBJ (CO_KEY 0x1000 0 (CO_UNSIGNED32, CO_OBJ_D_R)) None 0x198 int_0 {})
     = inline_constant
   \<and> handle_request (co_dict c) st 0x1000 0 READ payload = (Inr [0x98, 0x01, 0x00, 0x00], st)
   \<and> of_bytes [0x98, 0x01, 0x00, 0x00] = 0x198
   \<and> fst (handle_request (co_dict c) st 0x1000 0 WRITE payload) = Inl AccessDenied"
proof -
  have f: "find_entry (co_dict c) (0x1000, 0)
      = Inr (CO_OBJ (CO_KEY 0x1000 0 (CO_UNSIGNED32, CO_OBJ_D_R)) None 0x198 int_0 {})"
    by (rule co_dict_find_1000)
  have r: "handle_request (co_dict c) st 0x1000 0 READ payload = (Inr [0x98, 0x01, 0x00, 0x00], st)"
    by (simp add: handle_request_def f obj_1000_flags resolve_def read_entry_def
        slot_value_def to_bytes_0x198)
  have w: "fst (handle_request (co_dict c) st 0x1000 0 WRITE payload) = Inl AccessDenied"
    by (simp add: handle_request_def f obj_1000_flags)
  have d: "CO_OBJ_D_R
      = \<lparr>direct = True, node_id = False, pdo_map = False, readable = True, writable = False\<rparr>"
    by (simp add: CO_OBJ_D_R_def)
  have b: "of_bytes [0x98, 0x01, 0x00, 0x00] = 0x198"
    by simp
  from f d obj_1000_flags(3) r b w show ?thesis
    by (intro conjI)
qed

text \<open>
  Claim C4. For every read-only descriptor of \<open>co_dict\<close>, every write attempt on its key,
  whatever the payload and the state of the registry, fails with \<open>AccessDenied\<close> and
  leaves the registry, and so the value slot of the descriptor, unchanged.
\<close>

theorem write_read_only_denied:
  assumes "obj \<in> set (used_objects (co_dict c))"
    and "\<not> is_writable obj"
  shows "handle_request (co_dict c) st (Index (Key obj)) (Subindex (Key obj)) WRITE payload
           = (Inl AccessDenied, st)
     \<and> slot_value obj
          (snd (handle_request (co_dict c) st (Index (Key obj)) (Subindex (Key obj)) WRITE payload))
         = slot_value obj st"
proof -
  from co_dict_find [OF assms(1)]
  have "find_entry (co_dict c) (Index (Key obj), Subindex (Key obj)) = Inr obj"
    by (simp add: od_key_def)
  with assms(2) show ?thesis
    by (simp add: handle_request_def)
qed

theorem write_read_only_denied_witness:
  "\<not> is_writable (CO_OBJ (CO_KEY 0x1000 0 (CO_UNSIGNED32, CO_OBJ_D_R)) None 0x198 int_0 {})
   \<and> handle_request (co_dict sample_ids) initial_registry 0x1000 0 WRITE [0x01, 0x00, 0x00, 0x00]
       = (Inl AccessDenied, initial_registry)"
proof -
  have m: "CO_OBJ (CO_KEY 0x1000 0 (CO_UNSIGNED32, CO_OBJ_D_R)) None 0x198 int_0 {}
      \<in> set (used_objects (co_dict sample_ids))"
    using co_dict_1000_used [of sample_ids] by (simp add: co_dict_1000_def)
  from write_read_only_denied [OF m obj_1000_flags(2), of initial_registry "[0x01, 0x00, 0x00, 0x00]"]
    obj_1000_flags(2)
  show ?thesis
    by (simp add: CO_OBJ_def CO_KEY_def)
qed

end
